theory Spec2Isabelle
  imports Main
begin

section \<open>Python strings\<close>

text \<open>
  The program is \<^verbatim>\<open>file_processor.py\<close>: the class \<^verbatim>\<open>FileProcessor\<close> reads reference
  keys from one sheet, matches them against the titles of another and copies the matched
  files. Each method becomes a function of the same name that takes the state it reads and
  returns the state it leaves; an exception is a value (\<open>None\<close>, or the text of the error).
  Log lines are left out.

  A Python \<^verbatim>\<open>str\<close> is modelled as a \<^typ>\<open>string\<close>, a \<^typ>\<open>char\<close> being one of the code
  points U+0000 to U+00FF. Whitespace and case folding are Python's on that range; text
  with a character beyond U+00FF is outside the model.
\<close>

definition isspace :: "char \<Rightarrow> bool" where
  \<comment> \<open>\<^verbatim>\<open>str.isspace\<close> on one character: TAB, LF, VT, FF, CR, FS, GS, RS, US, SPACE, NEL
      (U+0085) and NO-BREAK SPACE (U+00A0).\<close>
  "isspace c =
     (c \<in> set [CHR 0x09, CHR 0x0A, CHR 0x0B, CHR 0x0C, CHR 0x0D,
                CHR 0x1C, CHR 0x1D, CHR 0x1E, CHR 0x1F, CHR 0x20,
                CHR 0x85, CHR 0xA0])"

definition strip :: "string \<Rightarrow> string" where
  \<comment> \<open>\<^verbatim>\<open>s.strip()\<close>\<close>
  "strip s = rev (dropWhile isspace (rev (dropWhile isspace s)))"

definition upper_letters :: "char list" where
  \<comment> \<open>the characters that \<^verbatim>\<open>str.lower\<close> changes: A to Z, and U+00C0 to U+00DE but U+00D7\<close>
  "upper_letters =
     ''ABCDEFGHIJKLMNOPQRSTUVWXYZ'' @
     [CHR 0xC0, CHR 0xC1, CHR 0xC2, CHR 0xC3, CHR 0xC4, CHR 0xC5,
      CHR 0xC6, CHR 0xC7, CHR 0xC8, CHR 0xC9, CHR 0xCA, CHR 0xCB,
      CHR 0xCC, CHR 0xCD, CHR 0xCE, CHR 0xCF, CHR 0xD0, CHR 0xD1,
      CHR 0xD2, CHR 0xD3, CHR 0xD4, CHR 0xD5, CHR 0xD6, CHR 0xD8,
      CHR 0xD9, CHR 0xDA, CHR 0xDB, CHR 0xDC, CHR 0xDD, CHR 0xDE]"

definition lower_letters :: "char list" where
  \<comment> \<open>what they become, each 32 code points further: a to z, and U+00E0 to U+00FE but
      U+00F7\<close>
  "lower_letters =
     ''abcdefghijklmnopqrstuvwxyz'' @
     [CHR 0xE0, CHR 0xE1, CHR 0xE2, CHR 0xE3, CHR 0xE4, CHR 0xE5,
      CHR 0xE6, CHR 0xE7, CHR 0xE8, CHR 0xE9, CHR 0xEA, CHR 0xEB,
      CHR 0xEC, CHR 0xED, CHR 0xEE, CHR 0xEF, CHR 0xF0, CHR 0xF1,
      CHR 0xF2, CHR 0xF3, CHR 0xF4, CHR 0xF5, CHR 0xF6, CHR 0xF8,
      CHR 0xF9, CHR 0xFA, CHR 0xFB, CHR 0xFC, CHR 0xFD, CHR 0xFE]"

definition lower_char :: "char \<Rightarrow> char" where
  \<comment> \<open>one character of \<^verbatim>\<open>s.lower()\<close>; two characters match under \<^verbatim>\<open>re.IGNORECASE\<close> when
      they are equal after it\<close>
  "lower_char c =
     (case map_of (zip upper_letters lower_letters) c of
        Some d \<Rightarrow> d
      | None \<Rightarrow> c)"

definition lower :: "string \<Rightarrow> string" where
  \<comment> \<open>\<^verbatim>\<open>s.lower()\<close>\<close>
  "lower s = map lower_char s"

definition startswith :: "string \<Rightarrow> string \<Rightarrow> bool" where
  \<comment> \<open>\<^verbatim>\<open>s.startswith(p)\<close>\<close>
  "startswith s p = (take (length p) s = p)"

definition endswith :: "string \<Rightarrow> string \<Rightarrow> bool" where
  \<comment> \<open>\<^verbatim>\<open>s.endswith(p)\<close>\<close>
  "endswith s p = (length p \<le> length s \<and> drop (length s - length p) s = p)"

definition replace_space :: "string \<Rightarrow> string" where
  \<comment> \<open>\<^verbatim>\<open>s.replace(" ", "")\<close>: every SPACE character is deleted, nothing else.\<close>
  "replace_space s = filter (\<lambda>c. c \<noteq> CHR 0x20) s"

definition rsplit_dot :: "string \<Rightarrow> string \<times> string" where
  \<comment> \<open>\<^verbatim>\<open>s.rsplit(".", 1)\<close> for a string with a dot: the parts before and after the
      last dot.\<close>
  "rsplit_dot s =
     (let tail = takeWhile (\<lambda>c. c \<noteq> CHR ''.'') (rev s)
      in (take (length s - Suc (length tail)) s, rev tail))"

section \<open>Reference extractor\<close>

text \<open>
  Column D of the accommodation sheet (\<^verbatim>\<open>accommodation_df.iloc[:, 3]\<close>) is a sequence of
  cells, in row order. A cell holds text, on which \<^verbatim>\<open>str(ref)\<close> is the identity, or is empty
  (NaN, here \<open>None\<close>), and \<^verbatim>\<open>dropna\<close> removes the empty ones. \<^verbatim>\<open>unique\<close> keeps the first
  occurrence of every value, in order of appearance.
\<close>

fun dropna :: "'a option list \<Rightarrow> 'a list" where
  "dropna [] = []"
| "dropna (None # cs) = dropna cs"
| "dropna (Some v # cs) = v # dropna cs"

fun unique_from :: "'a list \<Rightarrow> 'a list \<Rightarrow> 'a list" where
  "unique_from seen [] = []"
| "unique_from seen (x # xs) =
     (if x \<in> set seen then unique_from seen xs else x # unique_from (x # seen) xs)"

definition unique :: "'a list \<Rightarrow> 'a list" where
  "unique xs = unique_from [] xs"

fun keep_refs :: "string list \<Rightarrow> string list" where
  \<comment> \<open>the loop of \<^verbatim>\<open>get_flat_references\<close> over \<^verbatim>\<open>flat_refs_raw\<close>\<close>
  "keep_refs [] = []"
| "keep_refs (ref # refs) =
     (let ref_str = strip ref
      in if ref_str \<noteq> [] \<and> ref_str \<noteq> ''Flat / House Ref'' \<and> \<not> startswith ref_str ''Flat''
         then ref_str # keep_refs refs
         else keep_refs refs)"

definition get_flat_references :: "string option list \<Rightarrow> string list" where
  "get_flat_references column_d = keep_refs (unique (dropna column_d))"

section \<open>The search engine behind \<^verbatim>\<open>Series.str.contains\<close>\<close>

text \<open>
  \<^verbatim>\<open>titles.str.contains(pat, case=False, na=False)\<close> leaves \<^verbatim>\<open>regex\<close> at its default
  \<^verbatim>\<open>True\<close>: pandas compiles \<^verbatim>\<open>pat\<close> once as a regular expression with
  \<^verbatim>\<open>re.IGNORECASE\<close> and then searches every title with it. An engine is that call with the
  pattern as its argument: \<open>None\<close> when compiling raises \<^verbatim>\<open>re.error\<close>, otherwise the
  test applied to each title. The matcher below takes the engine as a parameter, so what is
  proved about it for every engine holds for the library's.
\<close>

type_synonym engine = "string \<Rightarrow> (string \<Rightarrow> bool) option"

text \<open>
  \<open>py_re\<close> is the library's engine on the patterns made of ordinary characters and
  parentheses. A parenthesis opens or closes a group; the characters
  \<^verbatim>\<open>. ^ $ * + ? { } [ ] \ |\<close> start syntax that this fragment does not cover, and a pattern
  that holds one of them is \<open>Beyond\<close> the fragment. An unbalanced parenthesis is
  \<open>Rejected\<close>, as \<^verbatim>\<open>re.compile\<close> raises \<^verbatim>\<open>re.error\<close> on it.
\<close>

datatype rx = Lit char | Group "rx list"

datatype compiled = Accepted "rx list" | Rejected | Beyond

definition beyond_chars :: "char list" where
  "beyond_chars =
     [CHR 0x2E, CHR 0x5E, CHR 0x24, CHR 0x2A, CHR 0x2B, CHR 0x3F,
      CHR 0x7B, CHR 0x7D, CHR 0x5B, CHR 0x5D, CHR 0x5C, CHR 0x7C]"

fun re_parse_from :: "rx list list \<Rightarrow> rx list \<Rightarrow> string \<Rightarrow> compiled" where
  \<comment> \<open>\<open>stack\<close>: the enclosing sequences still open; \<open>cur\<close>: the current sequence; both
      hold their items in reverse.\<close>
  "re_parse_from stack cur [] = (if stack = [] then Accepted (rev cur) else Rejected)"
| "re_parse_from stack cur (c # cs) =
     (if c = CHR 0x28 then re_parse_from (cur # stack) [] cs
      else if c = CHR 0x29 then
        (case stack of
           [] \<Rightarrow> Rejected
         | outer # stack' \<Rightarrow> re_parse_from stack' (Group (rev cur) # outer) cs)
      else if c \<in> set beyond_chars then Beyond
      else re_parse_from stack (Lit c # cur) cs)"

definition re_parse :: "string \<Rightarrow> compiled" where
  "re_parse pat = re_parse_from [] [] pat"

fun rx_match :: "rx \<Rightarrow> string \<Rightarrow> string option"
  and rx_match_seq :: "rx list \<Rightarrow> string \<Rightarrow> string option" where
  \<comment> \<open>the rest of the subject after a match at its start; letters match in either case\<close>
  "rx_match (Lit c) s =
     (case s of [] \<Rightarrow> None
      | d # s' \<Rightarrow> if lower_char d = lower_char c then Some s' else None)"
| "rx_match (Group rs) s = rx_match_seq rs s"
| "rx_match_seq [] s = Some s"
| "rx_match_seq (r # rs) s =
     (case rx_match r s of None \<Rightarrow> None | Some s' \<Rightarrow> rx_match_seq rs s')"

fun rx_search :: "rx list \<Rightarrow> string \<Rightarrow> bool" where
  \<comment> \<open>\<^verbatim>\<open>regex.search(s) is not None\<close>: a match starting at some position of \<open>s\<close>\<close>
  "rx_search rs [] = (case rx_match_seq rs [] of Some _ \<Rightarrow> True | None \<Rightarrow> False)"
| "rx_search rs (d # s) =
     (case rx_match_seq rs (d # s) of Some _ \<Rightarrow> True | None \<Rightarrow> rx_search rs s)"

definition py_re :: engine where
  \<comment> \<open>On a pattern \<open>Beyond\<close> the fragment the library may well compile and search;
      \<open>py_re\<close> is not a model of it there, and its answer \<open>None\<close> says nothing about the
      library. It is only ever applied to patterns that \<open>re_parse\<close> accepts or rejects.\<close>
  "py_re pat =
     (case re_parse pat of
        Accepted rs \<Rightarrow> Some (rx_search rs)
      | Rejected \<Rightarrow> None
      | Beyond \<Rightarrow> None)"

definition meta_chars :: "char list" where
  \<comment> \<open>the characters that are not ordinary in a pattern\<close>
  "meta_chars = CHR 0x28 # CHR 0x29 # beyond_chars"

definition plain :: "string \<Rightarrow> bool" where
  "plain pat = list_all (\<lambda>c. c \<notin> set meta_chars) pat"

text \<open>
  Literal containment, as the spec words it: \<open>pat\<close> occurs in \<open>s\<close> as a substring, letter
  case ignored, every character of \<open>pat\<close> standing for itself.
\<close>

fun contains_literal :: "string \<Rightarrow> string \<Rightarrow> bool" where
  "contains_literal pat [] = (pat = [])"
| "contains_literal pat (d # s) =
     (if startswith (lower (d # s)) (lower pat) then True else contains_literal pat s)"

definition literal_engine :: engine where
  \<comment> \<open>the engine of the spec, which is \<^verbatim>\<open>str.contains\<close> with \<^verbatim>\<open>regex=False\<close>: no pattern is
      refused\<close>
  "literal_engine pat = Some (contains_literal pat)"

section \<open>State of a \<^verbatim>\<open>FileProcessor\<close>\<close>

text \<open>
  The two dictionaries \<^verbatim>\<open>self.stats\<close> and \<^verbatim>\<open>self.detailed_results\<close> are records, and so
  is each dictionary that the methods append to their lists. The counters start at 0 and
  are only ever incremented. A row of the architect sheet holds text in column A and in
  column B; rows with an empty or numeric cell there are outside the model.
\<close>

type_synonym path = "string list"
  \<comment> \<open>a \<^verbatim>\<open>pathlib.Path\<close> as its components; \<^verbatim>\<open>p / name\<close> appends one\<close>

definition joinpath :: "path \<Rightarrow> string \<Rightarrow> path" where
  "joinpath p name = p @ [name]"

definition base_path :: path where
  "base_path = [''C:'', ''Users'', ''IS19'', ''Documents'', ''as_built_extraction'']"

definition architect_path :: path where
  "architect_path = joinpath base_path ''architect''"

definition processed_path :: path where
  "processed_path = joinpath base_path ''processed''"

record stats =
  processed :: nat
  matched :: nat
  not_found :: nat
  copy_errors :: nat

record catalog_entry =
  \<comment> \<open>a row of the architect sheet: column A and column B\<close>
  cat_filename :: string
  cat_title :: string

record section_file =
  sf_filename :: string
  sf_title :: string
  sf_matched :: bool

record match_info =
  m_flat_ref :: string
  m_title :: string
  m_filename :: string
  m_row_index :: nat

record no_match =
  nm_flat_ref :: string
  nm_reason :: string

record missing_file =
  mf_flat_ref :: string
  mf_title :: string
  mf_filename :: string
  mf_expected_path :: path
  mf_reason :: string

record copy_error =
  ce_flat_ref :: string
  ce_title :: string
  ce_filename :: string
  ce_source_path :: path
  ce_error :: string

record successful_match =
  sm_flat_ref :: string
  sm_title :: string
  sm_original_filename :: string
  sm_new_filename :: string
  sm_source_path :: path
  sm_destination_path :: path
  sm_destination_folder :: path

record detailed_results =
  successful_matches :: "successful_match list"
  no_matches_found :: "no_match list"
  file_not_found :: "missing_file list"
  copy_errors_list :: "copy_error list"
  unused_section_files :: "section_file list"
  all_flat_refs :: "string list"
  all_section_files :: "section_file list"

record file_processor =
  stats :: stats
  detailed_results :: detailed_results

definition init :: file_processor where
  \<comment> \<open>\<^verbatim>\<open>FileProcessor.__init__\<close>\<close>
  "init =
     \<lparr>stats = \<lparr>processed = 0, matched = 0, not_found = 0, copy_errors = 0\<rparr>,
      detailed_results =
        \<lparr>successful_matches = [], no_matches_found = [], file_not_found = [],
         copy_errors_list = [], unused_section_files = [], all_flat_refs = [],
         all_section_files = []\<rparr>\<rparr>"

section \<open>Matcher\<close>

definition target_pattern :: "string \<Rightarrow> string" where
  \<comment> \<open>\<^verbatim>\<open>f"Sections - {flat_ref}"\<close>\<close>
  "target_pattern flat_ref = ''Sections - '' @ flat_ref"

fun mark_matched :: "string \<Rightarrow> string \<Rightarrow> section_file list \<Rightarrow> section_file list" where
  \<comment> \<open>the inner loop with \<^verbatim>\<open>break\<close>: the first section file with this filename and title\<close>
  "mark_matched filename title [] = []"
| "mark_matched filename title (section_file # rest) =
     (if sf_filename section_file = filename \<and> sf_title section_file = title
      then section_file\<lparr>sf_matched := True\<rparr> # rest
      else section_file # mark_matched filename title rest)"

fun record_match ::
  "string \<Rightarrow> nat \<times> catalog_entry \<Rightarrow> match_info list \<times> file_processor \<Rightarrow>
   match_info list \<times> file_processor" where
  \<comment> \<open>the body of \<^verbatim>\<open>for idx in matching_rows[matching_rows].index\<close>\<close>
  "record_match flat_ref (idx, row) (matches, self) =
     (matches @
        [\<lparr>m_flat_ref = flat_ref, m_title = cat_title row, m_filename = cat_filename row,
          m_row_index = idx\<rparr>],
      self\<lparr>detailed_results := (detailed_results self)
             \<lparr>all_section_files :=
                mark_matched (cat_filename row) (cat_title row)
                  (all_section_files (detailed_results self))\<rparr>,
           stats := (stats self)\<lparr>matched := matched (stats self) + 1\<rparr>\<rparr>)"

definition matching_rows ::
  "(string \<Rightarrow> bool) \<Rightarrow> catalog_entry list \<Rightarrow> (nat \<times> catalog_entry) list" where
  "matching_rows found architect_df =
     filter (\<lambda>r. found (cat_title (snd r))) (zip [0..<length architect_df] architect_df)"

fun match_keys ::
  "engine \<Rightarrow> catalog_entry list \<Rightarrow> string list \<Rightarrow> match_info list \<Rightarrow> file_processor \<Rightarrow>
   match_info list option \<times> file_processor" where
  \<comment> \<open>\<^verbatim>\<open>for flat_ref in flat_refs\<close>; \<open>None\<close> when \<^verbatim>\<open>str.contains\<close> raises, with the
      object as the exception leaves it\<close>
  "match_keys eng architect_df [] matches self = (Some matches, self)"
| "match_keys eng architect_df (flat_ref # flat_refs) matches self =
     (let self1 = self\<lparr>stats := (stats self)\<lparr>processed := processed (stats self) + 1\<rparr>\<rparr>
      in case eng (target_pattern flat_ref) of
           None \<Rightarrow> (None, self1)
         | Some found \<Rightarrow>
             (if matching_rows found architect_df \<noteq> [] then
                (case fold (record_match flat_ref) (matching_rows found architect_df)
                        (matches, self1) of
                   (matches', self2) \<Rightarrow> match_keys eng architect_df flat_refs matches' self2)
              else
                match_keys eng architect_df flat_refs matches
                  (self1\<lparr>stats := (stats self1)\<lparr>not_found := not_found (stats self1) + 1\<rparr>,
                         detailed_results := (detailed_results self1)
                           \<lparr>no_matches_found :=
                              no_matches_found (detailed_results self1) @
                              [\<lparr>nm_flat_ref = flat_ref,
                                nm_reason =
                                  ''No matching section found in architect spreadsheet''\<rparr>]\<rparr>\<rparr>)))"

definition find_matching_sections ::
  "engine \<Rightarrow> catalog_entry list \<Rightarrow> string list \<Rightarrow> file_processor \<Rightarrow>
   match_info list \<times> file_processor" where
  \<comment> \<open>An exception anywhere in the \<^verbatim>\<open>try\<close> block makes the method return \<^verbatim>\<open>[]\<close>; what
      was already written to \<^verbatim>\<open>self\<close> stays.\<close>
  "find_matching_sections eng architect_df flat_refs self =
     (let self0 = self\<lparr>detailed_results := (detailed_results self)
                         \<lparr>all_flat_refs := flat_refs\<rparr>\<rparr>
      in case eng ''Sections'' of
           None \<Rightarrow> ([], self0)
         | Some section_mask \<Rightarrow>
             (let self1 = self0\<lparr>detailed_results := (detailed_results self0)
                    \<lparr>all_section_files :=
                       all_section_files (detailed_results self0) @
                       map (\<lambda>row. \<lparr>sf_filename = cat_filename row, sf_title = cat_title row,
                                   sf_matched = False\<rparr>)
                         (filter (\<lambda>row. section_mask (cat_title row)) architect_df)\<rparr>\<rparr>
              in case match_keys eng architect_df flat_refs [] self1 of
                   (None, self2) \<Rightarrow> ([], self2)
                 | (Some matches, self2) \<Rightarrow>
                     (matches,
                      self2\<lparr>detailed_results := (detailed_results self2)
                        \<lparr>unused_section_files :=
                           unused_section_files (detailed_results self2) @
                           filter (\<lambda>section_file. \<not> sf_matched section_file)
                             (all_section_files (detailed_results self2))\<rparr>\<rparr>)))"

definition selects :: "engine \<Rightarrow> string \<Rightarrow> catalog_entry \<Rightarrow> bool" where
  \<comment> \<open>the pattern of key \<open>flat_ref\<close> selects the row\<close>
  "selects eng flat_ref row =
     (case eng (target_pattern flat_ref) of
        None \<Rightarrow> False
      | Some found \<Rightarrow> found (cat_title row))"

definition matches_of :: "engine \<Rightarrow> catalog_entry list \<Rightarrow> string \<Rightarrow> match_info list" where
  \<comment> \<open>the records of one key: one for each row its pattern selects, in row order\<close>
  "matches_of eng architect_df flat_ref =
     (case eng (target_pattern flat_ref) of
        None \<Rightarrow> []
      | Some found \<Rightarrow>
          map (\<lambda>r. \<lparr>m_flat_ref = flat_ref, m_title = cat_title (snd r),
                     m_filename = cat_filename (snd r), m_row_index = fst r\<rparr>)
            (matching_rows found architect_df))"

definition has_match :: "engine \<Rightarrow> catalog_entry list \<Rightarrow> string \<Rightarrow> bool" where
  "has_match eng architect_df flat_ref = list_ex (selects eng flat_ref) architect_df"

definition compiles :: "engine \<Rightarrow> string list \<Rightarrow> bool" where
  \<comment> \<open>no call of \<^verbatim>\<open>str.contains\<close> in \<^verbatim>\<open>find_matching_sections\<close> raises\<close>
  "compiles eng flat_refs =
     (eng ''Sections'' \<noteq> None \<and>
      list_all (\<lambda>flat_ref. eng (target_pattern flat_ref) \<noteq> None) flat_refs)"

section \<open>Materializer\<close>

text \<open>
  The file system is a collaborator: \<open>fs_exists\<close> is \<^verbatim>\<open>Path.exists\<close>, \<open>fs_mkdir\<close> is
  \<^verbatim>\<open>Path.mkdir(parents=True, exist_ok=True)\<close> and \<open>fs_copy2\<close> is \<^verbatim>\<open>shutil.copy2\<close>. The two
  that write return the text of the exception they raise, if any, and the disk they leave.
\<close>

record 'fs filesystem =
  fs_exists :: "'fs \<Rightarrow> path \<Rightarrow> bool"
  fs_mkdir :: "'fs \<Rightarrow> path \<Rightarrow> string option \<times> 'fs"
  fs_copy2 :: "'fs \<Rightarrow> path \<Rightarrow> path \<Rightarrow> string option \<times> 'fs"

definition create_output_structure ::
  "'fs filesystem \<Rightarrow> string \<Rightarrow> 'fs \<Rightarrow> path option \<times> 'fs" where
  "create_output_structure fsys flat_ref disk =
     (let output_path = joinpath processed_path flat_ref
      in case fs_mkdir fsys disk output_path of
           (None, disk') \<Rightarrow> (Some output_path, disk')
         | (Some err, disk') \<Rightarrow> (None, disk'))"

definition generate_new_filename :: "string \<Rightarrow> string \<Rightarrow> string \<Rightarrow> string" where
  "generate_new_filename original_filename flat_ref drawing_type =
     (let house_type = replace_space flat_ref;
          (orig_name, file_ext) =
            (if CHR ''.'' \<in> set original_filename
             then (fst (rsplit_dot original_filename),
                   ''.'' @ snd (rsplit_dot original_filename))
             else (original_filename, ''.pdf''))
      in drawing_type @ ''_'' @ house_type @ ''_'' @ orig_name @ file_ext)"

definition source_filename_with_ext :: "string \<Rightarrow> string" where
  "source_filename_with_ext source_filename =
     (if \<not> endswith (lower source_filename) ''.pdf''
      then source_filename @ ''.pdf''
      else source_filename)"

definition copy_file ::
  "'fs filesystem \<Rightarrow> string \<Rightarrow> path \<Rightarrow> match_info \<Rightarrow> file_processor \<times> 'fs \<Rightarrow>
   bool \<times> file_processor \<times> 'fs" where
  "copy_file fsys source_filename destination_path match_info state =
     (case state of (self, disk) \<Rightarrow>
        (let source_file = joinpath architect_path (source_filename_with_ext source_filename)
         in if \<not> fs_exists fsys disk source_file then
              (False,
               self\<lparr>stats := (stats self)\<lparr>copy_errors := copy_errors (stats self) + 1\<rparr>,
                    detailed_results := (detailed_results self)
                      \<lparr>file_not_found :=
                         file_not_found (detailed_results self) @
                         [\<lparr>mf_flat_ref = m_flat_ref match_info, mf_title = m_title match_info,
                           mf_filename = source_filename, mf_expected_path = source_file,
                           mf_reason = ''File not found in architect directory''\<rparr>]\<rparr>\<rparr>,
               disk)
            else
              (let new_filename =
                     generate_new_filename (source_filename_with_ext source_filename)
                       (m_flat_ref match_info) ''sections'';
                   dest_file = joinpath destination_path new_filename
               in case fs_copy2 fsys disk source_file dest_file of
                    (None, disk') \<Rightarrow>
                      (True,
                       self\<lparr>detailed_results := (detailed_results self)
                         \<lparr>successful_matches :=
                            successful_matches (detailed_results self) @
                            [\<lparr>sm_flat_ref = m_flat_ref match_info,
                              sm_title = m_title match_info,
                              sm_original_filename = source_filename_with_ext source_filename,
                              sm_new_filename = new_filename,
                              sm_source_path = source_file,
                              sm_destination_path = dest_file,
                              sm_destination_folder = destination_path\<rparr>]\<rparr>\<rparr>,
                       disk')
                  | (Some e, disk') \<Rightarrow>
                      (False,
                       self\<lparr>stats := (stats self)
                              \<lparr>copy_errors := copy_errors (stats self) + 1\<rparr>,
                            detailed_results := (detailed_results self)
                              \<lparr>copy_errors_list :=
                                 copy_errors_list (detailed_results self) @
                                 [\<lparr>ce_flat_ref = m_flat_ref match_info,
                                   ce_title = m_title match_info,
                                   ce_filename = source_filename,
                                   ce_source_path = source_file,
                                   ce_error = e\<rparr>]\<rparr>\<rparr>,
                       disk'))))"

definition process_match ::
  "'fs filesystem \<Rightarrow> match_info \<Rightarrow> file_processor \<times> 'fs \<Rightarrow> file_processor \<times> 'fs" where
  \<comment> \<open>the body of \<^verbatim>\<open>for match in matches\<close> in \<^verbatim>\<open>process_files\<close>\<close>
  "process_match fsys match state =
     (case state of (self, disk) \<Rightarrow>
        (case create_output_structure fsys (m_flat_ref match) disk of
           (None, disk') \<Rightarrow> (self, disk')
         | (Some output_dir, disk') \<Rightarrow>
             snd (copy_file fsys (m_filename match) output_dir match (self, disk'))))"

fun process_matches ::
  "'fs filesystem \<Rightarrow> match_info list \<Rightarrow> file_processor \<times> 'fs \<Rightarrow> file_processor \<times> 'fs" where
  "process_matches fsys [] state = state"
| "process_matches fsys (match # matches) state =
     process_matches fsys matches (process_match fsys match state)"

section \<open>The run\<close>

text \<open>
  \<^verbatim>\<open>print_statistics\<close> and \<^verbatim>\<open>generate_detailed_report\<close> only read the state. A run records
  that they were called, in which order and on what; the report file is not part of the
  disk of the model.
\<close>

datatype emitted = Statistics stats | DetailedReport detailed_results
  \<comment> \<open>what \<^verbatim>\<open>print_statistics\<close> logs and what \<^verbatim>\<open>generate_detailed_report\<close> is given\<close>

record 'fs run =
  returned :: bool
  final :: file_processor
  disk_after :: 'fs
  emits :: "emitted list"

definition process_files ::
  "'fs filesystem \<Rightarrow> engine \<Rightarrow> (string option list \<times> catalog_entry list) option \<Rightarrow>
   file_processor \<Rightarrow> 'fs \<Rightarrow> 'fs run" where
  \<comment> \<open>\<open>loaded\<close>: what \<^verbatim>\<open>load_spreadsheets\<close> read, column D of the accommodation sheet and the
      rows of the architect sheet; \<open>None\<close> when it returns \<^verbatim>\<open>False\<close>.\<close>
  "process_files fsys eng loaded self disk =
     (case loaded of
        None \<Rightarrow> \<lparr>returned = False, final = self, disk_after = disk, emits = []\<rparr>
      | Some (column_d, architect_df) \<Rightarrow>
          (let flat_refs = get_flat_references column_d
           in if flat_refs = [] then
                \<lparr>returned = False, final = self, disk_after = disk, emits = []\<rparr>
              else
                (case find_matching_sections eng architect_df flat_refs self of
                   (matches, self1) \<Rightarrow>
                     if matches = [] then
                       \<lparr>returned = True, final = self1, disk_after = disk, emits = []\<rparr>
                     else
                       (case process_matches fsys matches (self1, disk) of
                          (self2, disk2) \<Rightarrow>
                            \<lparr>returned = True, final = self2, disk_after = disk2,
                             emits =
                               [Statistics (stats self2),
                                DetailedReport (detailed_results self2)]\<rparr>))))"

section \<open>A disk to run the program on\<close>

record disk =
  dirs :: "path list"
  files :: "path list"
  unreadable :: "path list"

definition plain_fs :: "disk filesystem" where
  \<comment> \<open>directories are always created; copying an unreadable file fails\<close>
  "plain_fs =
     \<lparr>fs_exists = (\<lambda>d p. p \<in> set (files d) \<or> p \<in> set (dirs d)),
      fs_mkdir = (\<lambda>d p. (None, if p \<in> set (dirs d) then d else d\<lparr>dirs := dirs d @ [p]\<rparr>)),
      fs_copy2 =
        (\<lambda>d src dst.
           if src \<in> set (unreadable d) then (Some ''[Errno 13] Permission denied'', d)
           else (None, if dst \<in> set (files d) then d else d\<lparr>files := files d @ [dst]\<rparr>))\<rparr>"

definition empty_disk :: disk where
  "empty_disk = \<lparr>dirs = [], files = [], unreadable = []\<rparr>"

section \<open>The spec's words for the output filename\<close>

definition spec_normalize :: "string \<Rightarrow> string" where
  \<comment> \<open>"normalize removes whitespace from the key"\<close>
  "spec_normalize key = filter (\<lambda>c. \<not> isspace c) key"

definition spec_derived_filename :: "string \<Rightarrow> string \<Rightarrow> string" where
  \<comment> \<open>"sections_" + normalize(key) + "_" + sourceBaseName + sourceExt, the source filename
      split at its last dot, the extension ".pdf" when there is none\<close>
  "spec_derived_filename key source =
     (let (base, ext) =
            (if CHR ''.'' \<in> set source
             then (fst (rsplit_dot source), ''.'' @ snd (rsplit_dot source))
             else (source, ''.pdf''))
      in ''sections_'' @ spec_normalize key @ ''_'' @ base @ ext)"

section \<open>Facts about the search engine\<close>

lemma re_parse_from_plain:
  "plain pat \<Longrightarrow> re_parse_from [] cur pat = Accepted (rev cur @ map Lit pat)"
  by (induction pat arbitrary: cur) (auto simp: plain_def meta_chars_def)

lemma rx_match_seq_lits:
  "rx_match_seq (map Lit p) s =
     (if startswith (lower s) (lower p) then Some (drop (length p) s) else None)"
proof (induction p arbitrary: s)
  case Nil
  then show ?case by (simp add: startswith_def lower_def)
next
  case (Cons c p)
  show ?case
  proof (cases s)
    case Nil
    then show ?thesis by (simp add: startswith_def lower_def)
  next
    case (Cons d s')
    then show ?thesis using Cons.IH[of s']
      by (auto simp: startswith_def lower_def)
  qed
qed

lemma rx_search_lits: "rx_search (map Lit p) s = contains_literal p s"
proof (induction s)
  case Nil
  show ?case by (auto simp: rx_match_seq_lits startswith_def lower_def)
next
  case (Cons d s)
  then show ?case by (simp add: rx_match_seq_lits)
qed

text \<open>
  A pattern of ordinary characters only is searched for as it is written: on such patterns
  the engine is literal containment.
\<close>

lemma py_re_plain: "plain pat \<Longrightarrow> py_re pat = Some (contains_literal pat)"
  by (auto simp: py_re_def re_parse_def re_parse_from_plain rx_search_lits)

section \<open>Facts about the matcher\<close>

lemma matching_rows_empty:
  "(matching_rows found architect_df = []) =
     (\<not> list_ex (\<lambda>row. found (cat_title row)) architect_df)"
proof -
  have "map snd (zip [0..<length architect_df] architect_df) = architect_df"
    by (simp add: map_snd_zip)
  then have "set architect_df = snd ` set (zip [0..<length architect_df] architect_df)"
    by (metis set_map)
  then show ?thesis
    by (auto simp: matching_rows_def filter_empty_conv list_ex_iff)
qed

lemma has_match_rows:
  assumes "eng (target_pattern flat_ref) = Some found"
  shows "has_match eng architect_df flat_ref = (matching_rows found architect_df \<noteq> [])"
proof -
  from assms have "selects eng flat_ref = (\<lambda>row. found (cat_title row))"
    by (intro ext) (simp add: selects_def)
  then show ?thesis
    by (simp add: has_match_def matching_rows_empty)
qed

lemma fold_record_match:
  "fold (record_match flat_ref) rows (matches, self) =
     (matches @ map (\<lambda>r. \<lparr>m_flat_ref = flat_ref, m_title = cat_title (snd r),
                     m_filename = cat_filename (snd r), m_row_index = fst r\<rparr>) rows,
      self\<lparr>detailed_results := (detailed_results self)
             \<lparr>all_section_files :=
                fold (\<lambda>r. mark_matched (cat_filename (snd r)) (cat_title (snd r))) rows
                  (all_section_files (detailed_results self))\<rparr>,
           stats := (stats self)\<lparr>matched := matched (stats self) + length rows\<rparr>\<rparr>)"
proof (induction rows arbitrary: matches self)
  case Nil
  show ?case by simp
next
  case (Cons r rows)
  obtain idx row where r: "r = (idx, row)" by (cases r)
  show ?case unfolding r by (simp add: Cons.IH)
qed

text \<open>
  When no pattern is refused, the loop over the keys returns the records of every key, in
  key order and then row order, and has counted each key once.
\<close>

lemma match_keys_result:
  assumes "list_all (\<lambda>flat_ref. eng (target_pattern flat_ref) \<noteq> None) flat_refs"
  shows "fst (match_keys eng architect_df flat_refs matches self) =
           Some (matches @ concat (map (matches_of eng architect_df) flat_refs)) \<and>
         stats (snd (match_keys eng architect_df flat_refs matches self)) =
           (stats self)
             \<lparr>processed := processed (stats self) + length flat_refs,
              matched := matched (stats self) +
                 length (concat (map (matches_of eng architect_df) flat_refs)),
              not_found := not_found (stats self) +
                 length (filter (\<lambda>flat_ref. \<not> has_match eng architect_df flat_ref)
                           flat_refs)\<rparr>"
  using assms
proof (induction flat_refs arbitrary: matches self)
  case Nil
  show ?case by simp
next
  case (Cons flat_ref flat_refs)
  from Cons.prems obtain found where found: "eng (target_pattern flat_ref) = Some found"
    by auto
  from Cons.prems
  have rest: "list_all (\<lambda>flat_ref. eng (target_pattern flat_ref) \<noteq> None) flat_refs"
    by simp
  note IH = Cons.IH[OF rest]
  show ?case
  proof (cases "matching_rows found architect_df = []")
    case True
    then show ?thesis
      using found has_match_rows[of eng flat_ref found architect_df]
      by (simp add: IH matches_of_def)
  next
    case False
    then show ?thesis
      using found has_match_rows[of eng flat_ref found architect_df]
      by (simp add: IH matches_of_def fold_record_match)
  qed
qed

lemma mark_matched_keeps:
  "s \<in> set sfs \<Longrightarrow> sf_title s \<noteq> title \<Longrightarrow> s \<in> set (mark_matched filename title sfs)"
  by (induction sfs) auto

lemma fold_mark_matched_keeps:
  "s \<in> set sfs \<Longrightarrow> list_all (\<lambda>r. cat_title (snd r) \<noteq> sf_title s) rows \<Longrightarrow>
   s \<in> set (fold (\<lambda>r. mark_matched (cat_filename (snd r)) (cat_title (snd r))) rows sfs)"
proof (induction rows arbitrary: sfs)
  case Nil
  then show ?case by simp
next
  case (Cons r rows)
  from Cons.prems
  have "s \<in> set (mark_matched (cat_filename (snd r)) (cat_title (snd r)) sfs)"
    by (auto intro: mark_matched_keeps)
  moreover from Cons.prems
  have "list_all (\<lambda>r. cat_title (snd r) \<noteq> sf_title s) rows"
    by simp
  ultimately show ?case using Cons.IH by simp
qed

lemma matching_rows_titles:
  "\<not> found t \<Longrightarrow>
   list_all (\<lambda>r. cat_title (snd r) \<noteq> t) (matching_rows found architect_df)"
  by (auto simp: matching_rows_def list_all_iff)

text \<open>
  A section file whose title no key's pattern selects goes through the loop untouched.
\<close>

lemma match_keys_keeps:
  assumes "s \<in> set (all_section_files (detailed_results self))"
    and "list_all (\<lambda>flat_ref. case eng (target_pattern flat_ref) of
                     None \<Rightarrow> True | Some found \<Rightarrow> \<not> found (sf_title s)) flat_refs"
  shows "s \<in> set (all_section_files (detailed_results
           (snd (match_keys eng architect_df flat_refs matches self))))"
  using assms
proof (induction flat_refs arbitrary: matches self)
  case Nil
  then show ?case by simp
next
  case (Cons flat_ref flat_refs)
  show ?case
  proof (cases "eng (target_pattern flat_ref)")
    case None
    then show ?thesis using Cons.prems by simp
  next
    case (Some found)
    with Cons.prems have nf: "\<not> found (sf_title s)" by simp
    from Cons.prems
    have rest: "list_all (\<lambda>flat_ref. case eng (target_pattern flat_ref) of
                     None \<Rightarrow> True | Some found \<Rightarrow> \<not> found (sf_title s)) flat_refs"
      by simp
    have rows: "list_all (\<lambda>r. cat_title (snd r) \<noteq> sf_title s)
                  (matching_rows found architect_df)"
      using nf by (rule matching_rows_titles)
    have kept: "s \<in> set (fold (\<lambda>r. mark_matched (cat_filename (snd r)) (cat_title (snd r)))
                 (matching_rows found architect_df)
                 (all_section_files (detailed_results self)))"
      using Cons.prems(1) rows by (rule fold_mark_matched_keeps)
    show ?thesis
    proof (cases "matching_rows found architect_df = []")
      case True
      then show ?thesis
        using Some Cons.prems(1) by (simp add: Let_def Cons.IH[OF _ rest])
    next
      case False
      then show ?thesis
        using Some kept by (simp add: Let_def fold_record_match Cons.IH[OF _ rest])
    qed
  qed
qed

section \<open>Counters of the matching stage\<close>

text \<open>
  As long as no call of \<^verbatim>\<open>str.contains\<close> raises, the counters are right after
  \<^verbatim>\<open>find_matching_sections\<close> on a fresh \<^verbatim>\<open>FileProcessor\<close>: the returned records are those
  of every key, in key order and then row order; \<open>processed\<close> is the number of keys;
  \<open>not_found\<close> is the number of keys whose pattern selects no row; \<open>processed\<close> is
  \<open>not_found\<close> plus the number of keys with a match; \<open>matched\<close> is the number of
  records returned.
\<close>

lemma matching_counters:
  assumes "compiles eng flat_refs"
  shows "(case find_matching_sections eng architect_df flat_refs init of
            (matches, self) \<Rightarrow>
              matches = concat (map (matches_of eng architect_df) flat_refs) \<and>
              processed (stats self) = length flat_refs \<and>
              not_found (stats self) =
                length (filter (\<lambda>flat_ref. \<not> has_match eng architect_df flat_ref)
                          flat_refs) \<and>
              processed (stats self) =
                not_found (stats self) +
                length (filter (has_match eng architect_df) flat_refs) \<and>
              matched (stats self) = length matches)"
proof -
  from assms obtain section_mask where mask: "eng ''Sections'' = Some section_mask"
    by (auto simp: compiles_def)
  from assms
  have keys: "list_all (\<lambda>flat_ref. eng (target_pattern flat_ref) \<noteq> None) flat_refs"
    by (simp add: compiles_def)
  define self1 where "self1 = init\<lparr>detailed_results := (detailed_results init)
      \<lparr>all_flat_refs := flat_refs,
       all_section_files := all_section_files (detailed_results init) @
         map (\<lambda>row. \<lparr>sf_filename = cat_filename row, sf_title = cat_title row,
                     sf_matched = False\<rparr>)
           (filter (\<lambda>row. section_mask (cat_title row)) architect_df)\<rparr>\<rparr>"
  have st: "stats self1 = \<lparr>processed = 0, matched = 0, not_found = 0, copy_errors = 0\<rparr>"
    by (simp add: self1_def init_def)
  obtain r self2 where mk: "match_keys eng architect_df flat_refs [] self1 = (r, self2)"
    by (cases "match_keys eng architect_df flat_refs [] self1")
  from match_keys_result[OF keys, of architect_df "[]" self1] mk st
  have r: "r = Some (concat (map (matches_of eng architect_df) flat_refs))"
    and s2: "stats self2 =
      \<lparr>processed = length flat_refs,
       matched = length (concat (map (matches_of eng architect_df) flat_refs)),
       not_found =
         length (filter (\<lambda>flat_ref. \<not> has_match eng architect_df flat_ref) flat_refs),
       copy_errors = 0\<rparr>"
    by simp_all
  have split: "length flat_refs =
      length (filter (\<lambda>flat_ref. \<not> has_match eng architect_df flat_ref) flat_refs) +
      length (filter (has_match eng architect_df) flat_refs)"
    using sum_length_filter_compl[of "has_match eng architect_df" flat_refs] by simp
  have fm: "find_matching_sections eng architect_df flat_refs init =
      (concat (map (matches_of eng architect_df) flat_refs),
       self2\<lparr>detailed_results := (detailed_results self2)
          \<lparr>unused_section_files :=
             unused_section_files (detailed_results self2) @
             filter (\<lambda>section_file. \<not> sf_matched section_file)
               (all_section_files (detailed_results self2))\<rparr>\<rparr>)"
    using mask mk r by (simp add: find_matching_sections_def self1_def)
  show ?thesis
    unfolding fm using s2 split by simp
qed

text \<open>
  Two rows match the first key and none the second: two records for one matched key.
\<close>

lemma matching_counters_example:
  "compiles py_re [''HT A'', ''HT B''] \<and>
   (case find_matching_sections py_re
           [\<lparr>cat_filename = ''F1.pdf'', cat_title = ''Sections - HT A''\<rparr>,
            \<lparr>cat_filename = ''F2.pdf'', cat_title = ''sections - ht a block 2''\<rparr>]
           [''HT A'', ''HT B''] init of
      (matches, self) \<Rightarrow>
        matches = concat (map (matches_of py_re
           [\<lparr>cat_filename = ''F1.pdf'', cat_title = ''Sections - HT A''\<rparr>,
            \<lparr>cat_filename = ''F2.pdf'', cat_title = ''sections - ht a block 2''\<rparr>])
           [''HT A'', ''HT B'']) \<and>
        processed (stats self) = 2 \<and> not_found (stats self) = 1 \<and>
        matched (stats self) = length matches \<and> length matches = 2)"
proof -
  have h: "compiles py_re [''HT A'', ''HT B'']"
    by code_simp
  have n: "length (concat (map (matches_of py_re
           [\<lparr>cat_filename = ''F1.pdf'', cat_title = ''Sections - HT A''\<rparr>,
            \<lparr>cat_filename = ''F2.pdf'', cat_title = ''sections - ht a block 2''\<rparr>])
           [''HT A'', ''HT B''])) = 2"
    by code_simp
  have f: "length (filter (\<lambda>flat_ref. \<not> has_match py_re
           [\<lparr>cat_filename = ''F1.pdf'', cat_title = ''Sections - HT A''\<rparr>,
            \<lparr>cat_filename = ''F2.pdf'', cat_title = ''sections - ht a block 2''\<rparr>] flat_ref)
           [''HT A'', ''HT B'']) = 1"
    by code_simp
  show ?thesis
    using h n f matching_counters[OF h,
      of "[\<lparr>cat_filename = ''F1.pdf'', cat_title = ''Sections - HT A''\<rparr>,
           \<lparr>cat_filename = ''F2.pdf'', cat_title = ''sections - ht a block 2''\<rparr>]"]
    by (simp split: prod.splits)
qed

text \<open>
  The engine of the spec refuses no pattern. With it the counters are right for every key
  list and every catalog.
\<close>

lemma literal_engine_compiles: "compiles literal_engine flat_refs"
  by (simp add: compiles_def literal_engine_def list_all_iff)

lemma literal_matching_counters:
  "(case find_matching_sections literal_engine architect_df flat_refs init of
      (matches, self) \<Rightarrow>
        matches = concat (map (matches_of literal_engine architect_df) flat_refs) \<and>
        processed (stats self) = length flat_refs \<and>
        not_found (stats self) =
          length (filter (\<lambda>flat_ref. \<not> has_match literal_engine architect_df flat_ref)
                    flat_refs) \<and>
        processed (stats self) =
          not_found (stats self) +
          length (filter (has_match literal_engine architect_df) flat_refs) \<and>
        matched (stats self) = length matches)"
  using literal_engine_compiles by (rule matching_counters)

text \<open>
  Claim C10. The counters are wrong after the matching stage when a key is refused as a
  pattern, which is the regular expression reading that claim C1 is about. The keys are
  \<^verbatim>\<open>HT A\<close> and \<^verbatim>\<open>HT B (\<close>, the one row is titled \<^verbatim>\<open>Sections - HT A\<close>. The second key
  raises and stops the loop: the record of the first key is counted in \<open>matched\<close> and
  not returned, and the second key, which has no match, is not counted in \<open>not_found\<close>.
  With literal containment the same input gives one record, \<open>matched\<close> 1 and
  \<open>not_found\<close> 1, as the claim says.
\<close>

theorem refused_key_breaks_counters:
  "(case find_matching_sections py_re
           [\<lparr>cat_filename = ''F1.pdf'', cat_title = ''Sections - HT A''\<rparr>]
           [''HT A'', ''HT B (''] init of
      (matches, self) \<Rightarrow>
        matches = [] \<and>
        stats self = \<lparr>processed = 2, matched = 1, not_found = 0, copy_errors = 0\<rparr>) \<and>
   filter (\<lambda>flat_ref. \<not> has_match py_re
           [\<lparr>cat_filename = ''F1.pdf'', cat_title = ''Sections - HT A''\<rparr>] flat_ref)
     [''HT A'', ''HT B (''] = [''HT B (''] \<and>
   (case find_matching_sections literal_engine
           [\<lparr>cat_filename = ''F1.pdf'', cat_title = ''Sections - HT A''\<rparr>]
           [''HT A'', ''HT B (''] init of
      (matches, self) \<Rightarrow>
        map m_flat_ref matches = [''HT A''] \<and>
        stats self = \<lparr>processed = 2, matched = 1, not_found = 1, copy_errors = 0\<rparr>)"
  by code_simp

section \<open>Unused section files\<close>

text \<open>
  As long as no call of \<^verbatim>\<open>str.contains\<close> raises, every row of the architect sheet whose
  title the pattern \<^verbatim>\<open>Sections\<close> selects and that no key's pattern selects is listed in
  \<open>unused_section_files\<close>, unmatched.
\<close>

lemma unselected_section_is_unused:
  assumes "compiles eng flat_refs"
    and "eng ''Sections'' = Some section_mask"
    and "row \<in> set architect_df"
    and "section_mask (cat_title row)"
    and "list_all (\<lambda>flat_ref. \<not> selects eng flat_ref row) flat_refs"
  shows "\<lparr>sf_filename = cat_filename row, sf_title = cat_title row, sf_matched = False\<rparr>
           \<in> set (unused_section_files (detailed_results
                (snd (find_matching_sections eng architect_df flat_refs init))))"
proof -
  let ?s = "\<lparr>sf_filename = cat_filename row, sf_title = cat_title row, sf_matched = False\<rparr>"
  from assms(1)
  have keys: "list_all (\<lambda>flat_ref. eng (target_pattern flat_ref) \<noteq> None) flat_refs"
    by (simp add: compiles_def)
  define self1 where "self1 = init\<lparr>detailed_results := (detailed_results init)
      \<lparr>all_flat_refs := flat_refs,
       all_section_files := all_section_files (detailed_results init) @
         map (\<lambda>row. \<lparr>sf_filename = cat_filename row, sf_title = cat_title row,
                     sf_matched = False\<rparr>)
           (filter (\<lambda>row. section_mask (cat_title row)) architect_df)\<rparr>\<rparr>"
  have in1: "?s \<in> set (all_section_files (detailed_results self1))"
    using assms(3,4) by (auto simp: self1_def)
  have unsel: "list_all (\<lambda>flat_ref. case eng (target_pattern flat_ref) of
                     None \<Rightarrow> True | Some found \<Rightarrow> \<not> found (sf_title ?s)) flat_refs"
    using assms(5) by (auto simp: list_all_iff selects_def split: option.splits)
  obtain r self2 where mk: "match_keys eng architect_df flat_refs [] self1 = (r, self2)"
    by (cases "match_keys eng architect_df flat_refs [] self1")
  from match_keys_result[OF keys, of architect_df "[]" self1] mk
  obtain matches where r: "r = Some matches" by simp
  from match_keys_keeps[OF in1 unsel, of architect_df "[]"] mk
  have in2: "?s \<in> set (all_section_files (detailed_results self2))" by simp
  have "snd (find_matching_sections eng architect_df flat_refs init) =
       self2\<lparr>detailed_results := (detailed_results self2)
          \<lparr>unused_section_files :=
             unused_section_files (detailed_results self2) @
             filter (\<lambda>section_file. \<not> sf_matched section_file)
               (all_section_files (detailed_results self2))\<rparr>\<rparr>"
    using assms(2) mk r by (simp add: find_matching_sections_def self1_def)
  then show ?thesis using in2 by simp
qed

lemma unselected_section_is_unused_example:
  "compiles py_re [''HT A''] \<and>
   py_re ''Sections'' = Some (contains_literal ''Sections'') \<and>
   \<lparr>cat_filename = ''F7.pdf'', cat_title = ''SECTIONS - HT D''\<rparr>
     \<in> set [\<lparr>cat_filename = ''F1.pdf'', cat_title = ''Sections - HT A''\<rparr>,
             \<lparr>cat_filename = ''F7.pdf'', cat_title = ''SECTIONS - HT D''\<rparr>] \<and>
   contains_literal ''Sections'' ''SECTIONS - HT D'' \<and>
   list_all (\<lambda>flat_ref. \<not> selects py_re flat_ref
       \<lparr>cat_filename = ''F7.pdf'', cat_title = ''SECTIONS - HT D''\<rparr>) [''HT A''] \<and>
   \<lparr>sf_filename = ''F7.pdf'', sf_title = ''SECTIONS - HT D'', sf_matched = False\<rparr>
     \<in> set (unused_section_files (detailed_results
          (snd (find_matching_sections py_re
             [\<lparr>cat_filename = ''F1.pdf'', cat_title = ''Sections - HT A''\<rparr>,
              \<lparr>cat_filename = ''F7.pdf'', cat_title = ''SECTIONS - HT D''\<rparr>]
             [''HT A''] init))))"
proof -
  have h1: "compiles py_re [''HT A'']"
    by code_simp
  have "plain ''Sections''"
    by code_simp
  then have h2: "py_re ''Sections'' = Some (contains_literal ''Sections'')"
    by (rule py_re_plain)
  have h3: "\<lparr>cat_filename = ''F7.pdf'', cat_title = ''SECTIONS - HT D''\<rparr>
     \<in> set [\<lparr>cat_filename = ''F1.pdf'', cat_title = ''Sections - HT A''\<rparr>,
             \<lparr>cat_filename = ''F7.pdf'', cat_title = ''SECTIONS - HT D''\<rparr>]"
    by simp
  have h4: "contains_literal ''Sections''
      (cat_title \<lparr>cat_filename = ''F7.pdf'', cat_title = ''SECTIONS - HT D''\<rparr>)"
    by code_simp
  have h5: "list_all (\<lambda>flat_ref. \<not> selects py_re flat_ref
       \<lparr>cat_filename = ''F7.pdf'', cat_title = ''SECTIONS - HT D''\<rparr>) [''HT A'']"
    by code_simp
  show ?thesis
    using h1 h2 h3 h4 h5 unselected_section_is_unused[OF h1 h2 h3 h4 h5]
    by simp
qed

text \<open>
  With the engine of the spec this holds for every key list and every catalog.
\<close>

lemma literal_unselected_section_is_unused:
  assumes "row \<in> set architect_df"
    and "contains_literal ''Sections'' (cat_title row)"
    and "list_all (\<lambda>flat_ref. \<not> contains_literal (target_pattern flat_ref) (cat_title row))
           flat_refs"
  shows "\<lparr>sf_filename = cat_filename row, sf_title = cat_title row, sf_matched = False\<rparr>
           \<in> set (unused_section_files (detailed_results
                (snd (find_matching_sections literal_engine architect_df flat_refs init))))"
proof -
  have mask: "literal_engine ''Sections'' = Some (contains_literal ''Sections'')"
    by (simp add: literal_engine_def)
  have unsel: "list_all (\<lambda>flat_ref. \<not> selects literal_engine flat_ref row) flat_refs"
    using assms(3) by (simp add: selects_def literal_engine_def)
  show ?thesis
    using literal_engine_compiles mask assms(1,2) unsel
    by (rule unselected_section_is_unused)
qed

text \<open>
  Claim C6. A section row that no key selects is missing from the unused section files
  when a key is refused as a pattern, which is the regular expression reading that claim
  C1 is about. The key is \<^verbatim>\<open>HT C (2B\<close>, the one row is titled \<^verbatim>\<open>Sections - HT D\<close>: its
  title contains \<^verbatim>\<open>Sections\<close>, the key does not select it, the search raises, and the list
  of unused section files is never filled. With literal containment the same input lists
  the row, as the claim says.
\<close>

theorem refused_key_hides_unused_section:
  "contains_literal ''Sections'' ''Sections - HT D'' \<and>
   \<not> selects py_re ''HT C (2B''
       \<lparr>cat_filename = ''F7.pdf'', cat_title = ''Sections - HT D''\<rparr> \<and>
   unused_section_files (detailed_results
      (snd (find_matching_sections py_re
         [\<lparr>cat_filename = ''F7.pdf'', cat_title = ''Sections - HT D''\<rparr>]
         [''HT C (2B''] init))) = [] \<and>
   all_section_files (detailed_results
      (snd (find_matching_sections py_re
         [\<lparr>cat_filename = ''F7.pdf'', cat_title = ''Sections - HT D''\<rparr>]
         [''HT C (2B''] init))) =
     [\<lparr>sf_filename = ''F7.pdf'', sf_title = ''Sections - HT D'', sf_matched = False\<rparr>] \<and>
   unused_section_files (detailed_results
      (snd (find_matching_sections literal_engine
         [\<lparr>cat_filename = ''F7.pdf'', cat_title = ''Sections - HT D''\<rparr>]
         [''HT C (2B''] init))) =
     [\<lparr>sf_filename = ''F7.pdf'', sf_title = ''Sections - HT D'', sf_matched = False\<rparr>]"
  by code_simp

section \<open>Keys that are not ordinary text\<close>

text \<open>
  Claim C1. The spec asks for literal containment of \<^verbatim>\<open>"Sections - " + key\<close>; the code
  hands the pattern to a regular expression engine. With the key \<^verbatim>\<open>HT A (3B)\<close> the row
  whose title contains the pattern literally is not selected, and a row whose title does
  not contain it is.
\<close>

theorem parenthesised_key_is_a_group:
  "contains_literal (target_pattern ''HT A (3B)'') ''Sections - HT A (3B)'' \<and>
   fst (find_matching_sections py_re
          [\<lparr>cat_filename = ''F1.pdf'', cat_title = ''Sections - HT A (3B)''\<rparr>]
          [''HT A (3B)''] init) = [] \<and>
   \<not> contains_literal (target_pattern ''HT A (3B)'') ''Sections - HT A 3B'' \<and>
   fst (find_matching_sections py_re
          [\<lparr>cat_filename = ''F2.pdf'', cat_title = ''Sections - HT A 3B''\<rparr>]
          [''HT A (3B)''] init) =
     [\<lparr>m_flat_ref = ''HT A (3B)'', m_title = ''Sections - HT A 3B'',
       m_filename = ''F2.pdf'', m_row_index = 0\<rparr>]"
  by code_simp

text \<open>
  Claim C2. The catalog holds a row whose title is exactly \<^verbatim>\<open>"Sections - " + K\<close> for the
  key \<^verbatim>\<open>K = HT B (2B3P)\<close>, and the matcher returns no record for it; with the key
  \<^verbatim>\<open>HT B (2B3P\<close> the search raises and the matcher returns no record at all, not even for
  the first key, whose title is in the catalog too.
\<close>

theorem exact_title_without_record:
  "cat_title \<lparr>cat_filename = ''F3.pdf'', cat_title = ''Sections - HT B (2B3P)''\<rparr> =
     target_pattern ''HT B (2B3P)'' \<and>
   fst (find_matching_sections py_re
          [\<lparr>cat_filename = ''F3.pdf'', cat_title = ''Sections - HT B (2B3P)''\<rparr>]
          [''HT B (2B3P)''] init) = [] \<and>
   fst (find_matching_sections py_re
          [\<lparr>cat_filename = ''F1.pdf'', cat_title = ''Sections - HT A''\<rparr>,
           \<lparr>cat_filename = ''F3.pdf'', cat_title = ''Sections - HT B (2B3P''\<rparr>]
          [''HT A'', ''HT B (2B3P''] init) = []"
  by code_simp

text \<open>
  What does hold: every key is ordinary text, one of them is \<open>flat_ref\<close>, and a row has
  the title \<^verbatim>\<open>"Sections - " + flat_ref\<close> in any letter case. Then the matcher returns a
  record of that key for that row.
\<close>

lemma contains_literal_same:
  assumes "lower t = lower pat"
  shows "contains_literal pat t"
proof (cases t)
  case Nil
  with assms show ?thesis by (simp add: lower_def)
next
  case (Cons d s)
  with assms show ?thesis by (simp add: startswith_def)
qed

lemma plain_key_compiles:
  assumes "list_all (\<lambda>flat_ref. plain flat_ref) flat_refs"
  shows "compiles py_re flat_refs"
proof -
  have sec: "plain ''Sections - ''"
    by code_simp
  have "plain ''Sections''"
    by code_simp
  then have "py_re ''Sections'' \<noteq> None"
    by (simp add: py_re_plain)
  moreover have "plain (target_pattern flat_ref)" if "plain flat_ref" for flat_ref
    using that sec by (simp add: plain_def target_pattern_def)
  then have "list_all (\<lambda>flat_ref. py_re (target_pattern flat_ref) \<noteq> None) flat_refs"
    using assms by (auto simp: list_all_iff py_re_plain)
  ultimately show ?thesis
    by (simp add: compiles_def)
qed

lemma find_matching_sections_matches:
  assumes "compiles eng flat_refs"
  shows "fst (find_matching_sections eng architect_df flat_refs self) =
           concat (map (matches_of eng architect_df) flat_refs)"
proof -
  from assms obtain section_mask where mask: "eng ''Sections'' = Some section_mask"
    by (auto simp: compiles_def)
  from assms
  have keys: "list_all (\<lambda>flat_ref. eng (target_pattern flat_ref) \<noteq> None) flat_refs"
    by (simp add: compiles_def)
  define self1 where "self1 = self\<lparr>detailed_results := (detailed_results self)
      \<lparr>all_flat_refs := flat_refs,
       all_section_files := all_section_files (detailed_results self) @
         map (\<lambda>row. \<lparr>sf_filename = cat_filename row, sf_title = cat_title row,
                     sf_matched = False\<rparr>)
           (filter (\<lambda>row. section_mask (cat_title row)) architect_df)\<rparr>\<rparr>"
  obtain r self2 where mk: "match_keys eng architect_df flat_refs [] self1 = (r, self2)"
    by (cases "match_keys eng architect_df flat_refs [] self1")
  from match_keys_result[OF keys, of architect_df "[]" self1] mk
  have "r = Some (concat (map (matches_of eng architect_df) flat_refs))"
    by simp
  then show ?thesis
    using mask mk by (simp add: find_matching_sections_def self1_def)
qed

lemma plain_key_title_matched:
  assumes "list_all (\<lambda>flat_ref. plain flat_ref) flat_refs"
    and "flat_ref \<in> set flat_refs"
    and "row \<in> set architect_df"
    and "lower (cat_title row) = lower (target_pattern flat_ref)"
  shows "\<exists>m \<in> set (fst (find_matching_sections py_re architect_df flat_refs init)).
           m_flat_ref m = flat_ref \<and> m_title m = cat_title row \<and>
           m_filename m = cat_filename row"
proof -
  have sec: "plain ''Sections - ''"
    by code_simp
  from assms(1,2) have "plain flat_ref"
    by (simp add: list_all_iff)
  then have "plain (target_pattern flat_ref)"
    using sec by (simp add: plain_def target_pattern_def)
  then have eng: "py_re (target_pattern flat_ref) = Some (contains_literal (target_pattern flat_ref))"
    by (rule py_re_plain)
  have found: "contains_literal (target_pattern flat_ref) (cat_title row)"
    using assms(4) by (rule contains_literal_same)
  from assms(3) obtain idx where idx: "(idx, row) \<in> set (zip [0..<length architect_df] architect_df)"
    by (metis in_set_conv_nth in_set_zip fst_conv snd_conv length_upt minus_nat.diff_0 nth_upt add_0)
  then have "(idx, row) \<in> set (matching_rows (contains_literal (target_pattern flat_ref)) architect_df)"
    using found by (simp add: matching_rows_def)
  then have "\<lparr>m_flat_ref = flat_ref, m_title = cat_title row, m_filename = cat_filename row,
              m_row_index = idx\<rparr> \<in> set (matches_of py_re architect_df flat_ref)"
    using eng by (force simp: matches_of_def)
  then have "\<lparr>m_flat_ref = flat_ref, m_title = cat_title row, m_filename = cat_filename row,
              m_row_index = idx\<rparr>
             \<in> set (concat (map (matches_of py_re architect_df) flat_refs))"
    using assms(2) by auto
  moreover have "fst (find_matching_sections py_re architect_df flat_refs init) =
      concat (map (matches_of py_re architect_df) flat_refs)"
    using plain_key_compiles[OF assms(1)] by (rule find_matching_sections_matches)
  ultimately show ?thesis
    by force
qed

section \<open>Reference keys\<close>

text \<open>
  Claim C3. \<^verbatim>\<open>get_flat_references\<close> removes duplicates from the raw cells and trims them
  afterwards. Two cells that differ in their trailing whitespace only are both kept and
  yield the same key twice.
\<close>

theorem trailing_space_repeats_key:
  "get_flat_references [Some ''HT A 3B4P'', Some ''HT B 2B3P'', Some ''HT A 3B4P ''] =
     [''HT A 3B4P'', ''HT B 2B3P'', ''HT A 3B4P''] \<and>
   \<not> distinct
       (get_flat_references [Some ''HT A 3B4P'', Some ''HT B 2B3P'', Some ''HT A 3B4P ''])"
  by code_simp

text \<open>
  What does hold: the keys are trimmed, non-empty and not header text, they come in the
  order of the cells they are read from, and they are free of duplicates when the cells
  are already trimmed.
\<close>

lemma unique_from_distinct:
  "distinct (unique_from seen xs) \<and> set (unique_from seen xs) = set xs - set seen"
  by (induction xs arbitrary: seen) auto

lemma keep_refs_filter:
  "keep_refs refs =
     filter (\<lambda>ref_str. ref_str \<noteq> [] \<and> ref_str \<noteq> ''Flat / House Ref'' \<and>
                        \<not> startswith ref_str ''Flat'')
       (map strip refs)"
  by (induction refs) (simp_all add: Let_def)

lemma get_flat_references_keys:
  "list_all (\<lambda>ref_str. ref_str \<noteq> [] \<and> \<not> startswith ref_str ''Flat'' \<and>
                        ref_str \<in> strip ` set (dropna column_d))
     (get_flat_references column_d)"
proof -
  have "set (unique (dropna column_d)) = set (dropna column_d)"
    using unique_from_distinct[of "[]" "dropna column_d"] by (simp add: unique_def)
  then show ?thesis
    by (auto simp: get_flat_references_def keep_refs_filter list_all_iff)
qed

lemma get_flat_references_trimmed_distinct:
  assumes "list_all (\<lambda>ref. strip ref = ref) (dropna column_d)"
  shows "distinct (get_flat_references column_d)"
proof -
  have d: "distinct (unique (dropna column_d))"
    and s: "set (unique (dropna column_d)) = set (dropna column_d)"
    using unique_from_distinct[of "[]" "dropna column_d"] by (simp_all add: unique_def)
  from assms s have "map strip (unique (dropna column_d)) = unique (dropna column_d)"
    by (intro map_idI) (auto simp: list_all_iff)
  with d show ?thesis
    by (simp add: get_flat_references_def keep_refs_filter)
qed

section \<open>Output filename\<close>

lemma rsplit_dot_append:
  assumes "CHR ''.'' \<notin> set ext"
  shows "rsplit_dot (base @ ''.'' @ ext) = (base, ext)"
proof -
  have "takeWhile (\<lambda>c. c \<noteq> CHR ''.'') (rev (base @ ''.'' @ ext)) = rev ext"
    using assms by (auto simp: takeWhile_tail)
  then show ?thesis
    by (simp add: rsplit_dot_def Let_def)
qed

text \<open>
  Claim C7, as amended. The filename that \<^verbatim>\<open>generate_new_filename\<close> derives is
  \<^verbatim>\<open>"sections_"\<close>, the key with every space character (U+0020) removed, \<^verbatim>\<open>"_"\<close>, and the
  source filename split at its last dot, with the extension \<^verbatim>\<open>".pdf"\<close> when it has no dot.
  For a key whose only whitespace is the space character this is the filename of the spec;
  key \<^verbatim>\<open>HT A 3B4P\<close> and source \<^verbatim>\<open>ARC-101.pdf\<close> give \<^verbatim>\<open>sections_HTA3B4P_ARC-101.pdf\<close>.
\<close>

theorem generate_new_filename_format:
  "(CHR ''.'' \<notin> set ext \<longrightarrow>
      generate_new_filename (base @ ''.'' @ ext) key ''sections'' =
        ''sections_'' @ filter (\<lambda>c. c \<noteq> CHR '' '') key @ ''_'' @ base @ ''.'' @ ext) \<and>
   (CHR ''.'' \<notin> set source \<longrightarrow>
      generate_new_filename source key ''sections'' =
        ''sections_'' @ filter (\<lambda>c. c \<noteq> CHR '' '') key @ ''_'' @ source @ ''.pdf'') \<and>
   (list_all (\<lambda>c. isspace c \<longrightarrow> c = CHR '' '') key \<longrightarrow>
      generate_new_filename source key ''sections'' = spec_derived_filename key source) \<and>
   generate_new_filename ''ARC-101.pdf'' ''HT A 3B4P'' ''sections'' =
     ''sections_HTA3B4P_ARC-101.pdf''"
proof (intro conjI impI)
  assume "CHR ''.'' \<notin> set ext"
  then show "generate_new_filename (base @ ''.'' @ ext) key ''sections'' =
        ''sections_'' @ filter (\<lambda>c. c \<noteq> CHR '' '') key @ ''_'' @ base @ ''.'' @ ext"
    using rsplit_dot_append[of ext base]
    by (simp add: generate_new_filename_def replace_space_def Let_def)
next
  assume "CHR ''.'' \<notin> set source"
  then show "generate_new_filename source key ''sections'' =
        ''sections_'' @ filter (\<lambda>c. c \<noteq> CHR '' '') key @ ''_'' @ source @ ''.pdf''"
    by (simp add: generate_new_filename_def replace_space_def Let_def)
next
  assume "list_all (\<lambda>c. isspace c \<longrightarrow> c = CHR '' '') key"
  moreover have "isspace (CHR '' '')"
    by (simp add: isspace_def)
  ultimately have "filter (\<lambda>c. c \<noteq> CHR '' '') key = filter (\<lambda>c. \<not> isspace c) key"
    by (intro filter_cong) (auto simp: list_all_iff)
  then show "generate_new_filename source key ''sections'' = spec_derived_filename key source"
    by (simp add: generate_new_filename_def spec_derived_filename_def spec_normalize_def
        replace_space_def Let_def)
next
  show "generate_new_filename ''ARC-101.pdf'' ''HT A 3B4P'' ''sections'' =
     ''sections_HTA3B4P_ARC-101.pdf''"
    by code_simp
qed

theorem generate_new_filename_format_witness:
  "CHR ''.'' \<notin> set ''pdf'' \<and>
   generate_new_filename (''ARC.101'' @ ''.'' @ ''pdf'') ''HT A 3B4P'' ''sections'' =
     ''sections_HTA3B4P_ARC.101.pdf'' \<and>
   CHR ''.'' \<notin> set ''ARC-101'' \<and>
   generate_new_filename ''ARC-101'' ''HT A 3B4P'' ''sections'' =
     ''sections_HTA3B4P_ARC-101.pdf'' \<and>
   list_all (\<lambda>c. isspace c \<longrightarrow> c = CHR '' '') ''HT A 3B4P'' \<and>
   generate_new_filename ''ARC-101'' ''HT A 3B4P'' ''sections'' =
     spec_derived_filename ''HT A 3B4P'' ''ARC-101''"
proof -
  have h1: "CHR ''.'' \<notin> set ''pdf''"
    by simp
  have h2: "CHR ''.'' \<notin> set ''ARC-101''"
    by simp
  have h3: "list_all (\<lambda>c. isspace c \<longrightarrow> c = CHR '' '') ''HT A 3B4P''"
    by (simp add: isspace_def)
  note format =
    generate_new_filename_format[of "''pdf''" "''ARC.101''" "''HT A 3B4P''" "''ARC-101''"]
  have a: "generate_new_filename (''ARC.101'' @ ''.'' @ ''pdf'') ''HT A 3B4P'' ''sections'' =
     ''sections_HTA3B4P_ARC.101.pdf''"
    using format h1 by simp
  have b: "generate_new_filename ''ARC-101'' ''HT A 3B4P'' ''sections'' =
     ''sections_HTA3B4P_ARC-101.pdf''"
    using format h2 by simp
  have c: "generate_new_filename ''ARC-101'' ''HT A 3B4P'' ''sections'' =
     spec_derived_filename ''HT A 3B4P'' ''ARC-101''"
    using format h3 by blast
  show ?thesis
    using h1 h2 h3 a b c by blast
qed

text \<open>
  The claim as stated fails on a key with a tab: the code keeps the tab, \<open>spec_normalize\<close>
  removes it.
\<close>

theorem generate_new_filename_tab_counterexample:
  "generate_new_filename ''ARC-101.pdf'' [CHR ''H'', CHR ''T'', CHR 0x09, CHR ''A'']
     ''sections'' =
     ''sections_'' @ [CHR ''H'', CHR ''T'', CHR 0x09, CHR ''A''] @ ''_ARC-101.pdf'' \<and>
   spec_derived_filename [CHR ''H'', CHR ''T'', CHR 0x09, CHR ''A''] ''ARC-101.pdf'' =
     ''sections_HTA_ARC-101.pdf'' \<and>
   generate_new_filename ''ARC-101.pdf'' [CHR ''H'', CHR ''T'', CHR 0x09, CHR ''A'']
     ''sections'' \<noteq>
   spec_derived_filename [CHR ''H'', CHR ''T'', CHR 0x09, CHR ''A''] ''ARC-101.pdf''"
  by code_simp

section \<open>Source file lookup\<close>

lemma lower_pdf: "lower ''.pdf'' = ''.pdf''"
  by code_simp

lemma endswith_append: "endswith (s @ p) p"
  by (simp add: endswith_def)

lemma source_filename_with_ext_lower:
  "endswith (lower (source_filename_with_ext source_filename)) ''.pdf''"
proof (cases "endswith (lower source_filename) ''.pdf''")
  case True
  then show ?thesis by (simp add: source_filename_with_ext_def)
next
  case False
  have "lower (source_filename @ ''.pdf'') = lower source_filename @ ''.pdf''"
    using lower_pdf by (simp add: lower_def)
  with False show ?thesis
    by (simp add: source_filename_with_ext_def endswith_append del: append.simps)
qed

text \<open>
  Claim C8, as amended. The source file of a match is looked up at
  \<^verbatim>\<open>architect_path / name\<close>, where \<^verbatim>\<open>name\<close> is the stored filename itself when it ends in
  \<^verbatim>\<open>.pdf\<close> in any letter case, and the stored filename with \<^verbatim>\<open>.pdf\<close> appended otherwise
  (no extension, or another one, which is kept). So the name looked up always ends in
  \<^verbatim>\<open>.pdf\<close> up to letter case, and \<^verbatim>\<open>copy_file\<close> asks the file system about no other path:
  it succeeds only if that path exists, reports that path when it does not, and behaves
  the same under any other answer for the other paths.
\<close>

theorem source_file_lookup:
  "endswith (lower (source_filename_with_ext source_filename)) ''.pdf'' \<and>
   (endswith (lower source_filename) ''.pdf'' \<longrightarrow>
      source_filename_with_ext source_filename = source_filename) \<and>
   (\<not> endswith (lower source_filename) ''.pdf'' \<longrightarrow>
      source_filename_with_ext source_filename = source_filename @ ''.pdf'') \<and>
   (fst (copy_file fsys source_filename destination_path match_info (self, disk)) \<longrightarrow>
      fs_exists fsys disk
        (joinpath architect_path (source_filename_with_ext source_filename))) \<and>
   (\<not> fs_exists fsys disk
        (joinpath architect_path (source_filename_with_ext source_filename)) \<longrightarrow>
      map mf_expected_path (file_not_found (detailed_results
        (fst (snd (copy_file fsys source_filename destination_path match_info
                     (self, disk)))))) =
      map mf_expected_path (file_not_found (detailed_results self)) @
      [joinpath architect_path (source_filename_with_ext source_filename)]) \<and>
   (other_exists disk
        (joinpath architect_path (source_filename_with_ext source_filename)) =
    fs_exists fsys disk
        (joinpath architect_path (source_filename_with_ext source_filename)) \<longrightarrow>
      copy_file (fsys\<lparr>fs_exists := other_exists\<rparr>) source_filename destination_path
        match_info (self, disk) =
      copy_file fsys source_filename destination_path match_info (self, disk))"
proof (intro conjI impI)
  show "endswith (lower (source_filename_with_ext source_filename)) ''.pdf''"
    by (rule source_filename_with_ext_lower)
next
  assume "endswith (lower source_filename) ''.pdf''"
  then show "source_filename_with_ext source_filename = source_filename"
    by (simp add: source_filename_with_ext_def)
next
  assume "\<not> endswith (lower source_filename) ''.pdf''"
  then show "source_filename_with_ext source_filename = source_filename @ ''.pdf''"
    by (simp add: source_filename_with_ext_def)
next
  assume "fst (copy_file fsys source_filename destination_path match_info (self, disk))"
  then show "fs_exists fsys disk
        (joinpath architect_path (source_filename_with_ext source_filename))"
    by (auto simp: copy_file_def Let_def split: if_splits)
next
  assume "\<not> fs_exists fsys disk
        (joinpath architect_path (source_filename_with_ext source_filename))"
  then show "map mf_expected_path (file_not_found (detailed_results
        (fst (snd (copy_file fsys source_filename destination_path match_info
                     (self, disk)))))) =
      map mf_expected_path (file_not_found (detailed_results self)) @
      [joinpath architect_path (source_filename_with_ext source_filename)]"
    by (simp add: copy_file_def Let_def)
next
  assume "other_exists disk
        (joinpath architect_path (source_filename_with_ext source_filename)) =
    fs_exists fsys disk
        (joinpath architect_path (source_filename_with_ext source_filename))"
  then show "copy_file (fsys\<lparr>fs_exists := other_exists\<rparr>) source_filename destination_path
        match_info (self, disk) =
      copy_file fsys source_filename destination_path match_info (self, disk)"
    by (simp add: copy_file_def Let_def)
qed

text \<open>
  A stored name with the suffix already, in capitals, and one with another extension.
\<close>

theorem source_file_lookup_witness:
  "endswith (lower ''ARC-101.PDF'') ''.pdf'' \<and>
   source_filename_with_ext ''ARC-101.PDF'' = ''ARC-101.PDF'' \<and>
   \<not> endswith (lower ''ARC-102.dwg'') ''.pdf'' \<and>
   source_filename_with_ext ''ARC-102.dwg'' = ''ARC-102.dwg.pdf'' \<and>
   \<not> fs_exists plain_fs empty_disk
       (joinpath architect_path (source_filename_with_ext ''ARC-102.dwg'')) \<and>
   map mf_expected_path (file_not_found (detailed_results
     (fst (snd (copy_file plain_fs ''ARC-102.dwg'' (joinpath processed_path ''HT A'')
        \<lparr>m_flat_ref = ''HT A'', m_title = ''Sections - HT A'', m_filename = ''ARC-102.dwg'',
          m_row_index = 0\<rparr> (init, empty_disk)))))) =
     [joinpath architect_path ''ARC-102.dwg.pdf'']"
proof -
  have h1: "endswith (lower ''ARC-101.PDF'') ''.pdf''"
    by code_simp
  have h2: "\<not> endswith (lower ''ARC-102.dwg'') ''.pdf''"
    by code_simp
  have h3: "\<not> fs_exists plain_fs empty_disk
       (joinpath architect_path (source_filename_with_ext ''ARC-102.dwg''))"
    by code_simp
  note caps = source_file_lookup[of "''ARC-101.PDF''" plain_fs
        "joinpath processed_path ''HT A''"
        "\<lparr>m_flat_ref = ''HT A'', m_title = ''Sections - HT A'', m_filename = ''ARC-102.dwg'',
          m_row_index = 0\<rparr>" init empty_disk "fs_exists plain_fs"]
  note dwg = source_file_lookup[of "''ARC-102.dwg''" plain_fs
        "joinpath processed_path ''HT A''"
        "\<lparr>m_flat_ref = ''HT A'', m_title = ''Sections - HT A'', m_filename = ''ARC-102.dwg'',
          m_row_index = 0\<rparr>" init empty_disk "fs_exists plain_fs"]
  from caps have "endswith (lower ''ARC-101.PDF'') ''.pdf'' \<longrightarrow>
      source_filename_with_ext ''ARC-101.PDF'' = ''ARC-101.PDF''"
    by (elim conjE)
  with h1 have a: "source_filename_with_ext ''ARC-101.PDF'' = ''ARC-101.PDF''"
    by (rule rev_mp)
  from dwg have "\<not> endswith (lower ''ARC-102.dwg'') ''.pdf'' \<longrightarrow>
      source_filename_with_ext ''ARC-102.dwg'' = ''ARC-102.dwg'' @ ''.pdf''"
    by (elim conjE)
  with h2 have "source_filename_with_ext ''ARC-102.dwg'' = ''ARC-102.dwg'' @ ''.pdf''"
    by (rule rev_mp)
  then have b: "source_filename_with_ext ''ARC-102.dwg'' = ''ARC-102.dwg.pdf''"
    by simp
  from dwg have "\<not> fs_exists plain_fs empty_disk
        (joinpath architect_path (source_filename_with_ext ''ARC-102.dwg'')) \<longrightarrow>
      map mf_expected_path (file_not_found (detailed_results
        (fst (snd (copy_file plain_fs ''ARC-102.dwg'' (joinpath processed_path ''HT A'')
           \<lparr>m_flat_ref = ''HT A'', m_title = ''Sections - HT A'',
             m_filename = ''ARC-102.dwg'', m_row_index = 0\<rparr> (init, empty_disk)))))) =
      map mf_expected_path (file_not_found (detailed_results init)) @
      [joinpath architect_path (source_filename_with_ext ''ARC-102.dwg'')]"
    by (elim conjE)
  with h3 have "map mf_expected_path (file_not_found (detailed_results
        (fst (snd (copy_file plain_fs ''ARC-102.dwg'' (joinpath processed_path ''HT A'')
           \<lparr>m_flat_ref = ''HT A'', m_title = ''Sections - HT A'',
             m_filename = ''ARC-102.dwg'', m_row_index = 0\<rparr> (init, empty_disk)))))) =
      map mf_expected_path (file_not_found (detailed_results init)) @
      [joinpath architect_path (source_filename_with_ext ''ARC-102.dwg'')]"
    by (rule rev_mp)
  then have c: "map mf_expected_path (file_not_found (detailed_results
     (fst (snd (copy_file plain_fs ''ARC-102.dwg'' (joinpath processed_path ''HT A'')
        \<lparr>m_flat_ref = ''HT A'', m_title = ''Sections - HT A'', m_filename = ''ARC-102.dwg'',
          m_row_index = 0\<rparr> (init, empty_disk)))))) =
     [joinpath architect_path ''ARC-102.dwg.pdf'']"
    by (simp add: b init_def)
  show ?thesis
    by (intro conjI) (fact h1 a h2 b h3 c)+
qed

text \<open>
  The claim as stated fails on a stored name in capitals: the name is looked up as it is,
  and it does not end in \<^verbatim>\<open>.pdf\<close>. On a disk that holds \<^verbatim>\<open>ARC-101.pdf\<close> only, the file is
  reported missing at \<^verbatim>\<open>ARC-101.PDF\<close>.
\<close>

theorem source_file_lookup_counterexample:
  "source_filename_with_ext ''ARC-101.PDF'' = ''ARC-101.PDF'' \<and>
   \<not> endswith (source_filename_with_ext ''ARC-101.PDF'') ''.pdf'' \<and>
   map mf_expected_path (file_not_found (detailed_results
     (fst (snd (copy_file plain_fs ''ARC-101.PDF'' (joinpath processed_path ''HT A'')
        \<lparr>m_flat_ref = ''HT A'', m_title = ''Sections - HT A'', m_filename = ''ARC-101.PDF'',
          m_row_index = 0\<rparr>
        (init, empty_disk\<lparr>files := [joinpath architect_path ''ARC-101.pdf'']\<rparr>)))))) =
     [joinpath architect_path ''ARC-101.PDF'']"
  by code_simp

section \<open>Materializing one match\<close>

text \<open>
  Claim C4, as amended. For every match whose output directory could be created and whose
  source file, with the \<^verbatim>\<open>.pdf\<close> suffix ensured, is absent from the architect directory:
  \<^verbatim>\<open>copy_file\<close> returns \<^verbatim>\<open>False\<close>, adds one \<open>file_not_found\<close> record with the path it
  looked up, counts one copy error, and leaves the disk as it found it, so no file is
  written. The output directory of the key has been created before, by
  \<^verbatim>\<open>create_output_structure\<close>: the disk after the match is the disk after that call.
\<close>

theorem missing_source_writes_no_file:
  assumes "create_output_structure fsys (m_flat_ref match) disk = (Some output_dir, disk1)"
    and "\<not> fs_exists fsys disk1
           (joinpath architect_path (source_filename_with_ext (m_filename match)))"
  shows "copy_file fsys (m_filename match) output_dir match (self, disk1) =
      (False,
       self\<lparr>stats := (stats self)\<lparr>copy_errors := copy_errors (stats self) + 1\<rparr>,
            detailed_results := (detailed_results self)
              \<lparr>file_not_found :=
                 file_not_found (detailed_results self) @
                 [\<lparr>mf_flat_ref = m_flat_ref match, mf_title = m_title match,
                   mf_filename = m_filename match,
                   mf_expected_path =
                     joinpath architect_path (source_filename_with_ext (m_filename match)),
                   mf_reason = ''File not found in architect directory''\<rparr>]\<rparr>\<rparr>,
       disk1) \<and>
     process_match fsys match (self, disk) =
       snd (copy_file fsys (m_filename match) output_dir match (self, disk1)) \<and>
     disk1 = snd (fs_mkdir fsys disk (joinpath processed_path (m_flat_ref match))) \<and>
     output_dir = joinpath processed_path (m_flat_ref match)"
  using assms
  by (auto simp: copy_file_def process_match_def create_output_structure_def Let_def
      split: prod.splits option.splits)

theorem missing_source_writes_no_file_witness:
  "create_output_structure plain_fs
      (m_flat_ref \<lparr>m_flat_ref = ''HT A'', m_title = ''Sections - HT A'',
                   m_filename = ''F1'', m_row_index = 0\<rparr>) empty_disk =
     (Some (joinpath processed_path ''HT A''),
      empty_disk\<lparr>dirs := [joinpath processed_path ''HT A'']\<rparr>) \<and>
   \<not> fs_exists plain_fs (empty_disk\<lparr>dirs := [joinpath processed_path ''HT A'']\<rparr>)
       (joinpath architect_path (source_filename_with_ext
          (m_filename \<lparr>m_flat_ref = ''HT A'', m_title = ''Sections - HT A'',
                        m_filename = ''F1'', m_row_index = 0\<rparr>))) \<and>
   snd (snd (copy_file plain_fs ''F1'' (joinpath processed_path ''HT A'')
      \<lparr>m_flat_ref = ''HT A'', m_title = ''Sections - HT A'', m_filename = ''F1'',
        m_row_index = 0\<rparr>
      (init, empty_disk\<lparr>dirs := [joinpath processed_path ''HT A'']\<rparr>))) =
     empty_disk\<lparr>dirs := [joinpath processed_path ''HT A'']\<rparr> \<and>
   \<not> fst (copy_file plain_fs ''F1'' (joinpath processed_path ''HT A'')
      \<lparr>m_flat_ref = ''HT A'', m_title = ''Sections - HT A'', m_filename = ''F1'',
        m_row_index = 0\<rparr>
      (init, empty_disk\<lparr>dirs := [joinpath processed_path ''HT A'']\<rparr>))"
proof -
  let ?m = "\<lparr>m_flat_ref = ''HT A'', m_title = ''Sections - HT A'', m_filename = ''F1'',
             m_row_index = 0\<rparr>"
  let ?d = "empty_disk\<lparr>dirs := [joinpath processed_path ''HT A'']\<rparr>"
  have h1: "create_output_structure plain_fs (m_flat_ref ?m) empty_disk =
     (Some (joinpath processed_path ''HT A''), ?d)"
    by code_simp
  have h2: "\<not> fs_exists plain_fs ?d
       (joinpath architect_path (source_filename_with_ext (m_filename ?m)))"
    by code_simp
  note t = missing_source_writes_no_file[OF h1 h2, of init]
  from t have "copy_file plain_fs (m_filename ?m) (joinpath processed_path ''HT A'') ?m
      (init, ?d) =
      (False,
       init\<lparr>stats := (stats init)\<lparr>copy_errors := copy_errors (stats init) + 1\<rparr>,
            detailed_results := (detailed_results init)
              \<lparr>file_not_found :=
                 file_not_found (detailed_results init) @
                 [\<lparr>mf_flat_ref = m_flat_ref ?m, mf_title = m_title ?m,
                   mf_filename = m_filename ?m,
                   mf_expected_path =
                     joinpath architect_path (source_filename_with_ext (m_filename ?m)),
                   mf_reason = ''File not found in architect directory''\<rparr>]\<rparr>\<rparr>,
       ?d)"
    by (elim conjE)
  then have c: "snd (snd (copy_file plain_fs ''F1'' (joinpath processed_path ''HT A'') ?m
      (init, ?d))) = ?d \<and>
      \<not> fst (copy_file plain_fs ''F1'' (joinpath processed_path ''HT A'') ?m (init, ?d))"
    by simp
  show ?thesis
    using h1 h2 c by (intro conjI) simp_all
qed

text \<open>
  The claim as stated fails on an empty disk: the source file is missing, the outcome is
  recorded as such, and the disk has a new directory.
\<close>

theorem missing_source_creates_directory_counterexample:
  "\<not> fs_exists plain_fs empty_disk (joinpath architect_path (source_filename_with_ext ''F1'')) \<and>
   map mf_filename (file_not_found (detailed_results (fst
     (process_match plain_fs
        \<lparr>m_flat_ref = ''HT A'', m_title = ''Sections - HT A'', m_filename = ''F1'',
          m_row_index = 0\<rparr> (init, empty_disk))))) = [''F1''] \<and>
   dirs empty_disk = [] \<and>
   dirs (snd
     (process_match plain_fs
        \<lparr>m_flat_ref = ''HT A'', m_title = ''Sections - HT A'', m_filename = ''F1'',
          m_row_index = 0\<rparr> (init, empty_disk))) = [joinpath processed_path ''HT A''] \<and>
   snd (process_match plain_fs
        \<lparr>m_flat_ref = ''HT A'', m_title = ''Sections - HT A'', m_filename = ''F1'',
          m_row_index = 0\<rparr> (init, empty_disk)) \<noteq> empty_disk"
  by code_simp

text \<open>
  Claim C9. For every match whose copy fails, that is whose output directory was created,
  whose source file exists and for which \<^verbatim>\<open>shutil.copy2\<close> raises: \<^verbatim>\<open>copy_file\<close> returns
  \<^verbatim>\<open>False\<close>, a value and no exception, adds one \<open>copy_errors\<close> record that carries the text
  of the exception, counts one copy error, and the loop goes on with the next match from
  that state.
\<close>

theorem copy_failure_is_recorded:
  assumes "create_output_structure fsys (m_flat_ref match) disk = (Some output_dir, disk1)"
    and "fs_exists fsys disk1
           (joinpath architect_path (source_filename_with_ext (m_filename match)))"
    and "fs_copy2 fsys disk1
           (joinpath architect_path (source_filename_with_ext (m_filename match)))
           (joinpath output_dir
              (generate_new_filename (source_filename_with_ext (m_filename match))
                 (m_flat_ref match) ''sections'')) = (Some e, disk2)"
  shows "copy_file fsys (m_filename match) output_dir match (self, disk1) =
      (False,
       self\<lparr>stats := (stats self)\<lparr>copy_errors := copy_errors (stats self) + 1\<rparr>,
            detailed_results := (detailed_results self)
              \<lparr>copy_errors_list :=
                 copy_errors_list (detailed_results self) @
                 [\<lparr>ce_flat_ref = m_flat_ref match, ce_title = m_title match,
                   ce_filename = m_filename match,
                   ce_source_path =
                     joinpath architect_path (source_filename_with_ext (m_filename match)),
                   ce_error = e\<rparr>]\<rparr>\<rparr>,
       disk2) \<and>
     process_matches fsys (match # matches) (self, disk) =
       process_matches fsys matches
         (self\<lparr>stats := (stats self)\<lparr>copy_errors := copy_errors (stats self) + 1\<rparr>,
            detailed_results := (detailed_results self)
              \<lparr>copy_errors_list :=
                 copy_errors_list (detailed_results self) @
                 [\<lparr>ce_flat_ref = m_flat_ref match, ce_title = m_title match,
                   ce_filename = m_filename match,
                   ce_source_path =
                     joinpath architect_path (source_filename_with_ext (m_filename match)),
                   ce_error = e\<rparr>]\<rparr>\<rparr>,
          disk2)"
  using assms
  by (simp add: copy_file_def process_match_def Let_def)

text \<open>
  Two matches; the source file of the first cannot be read, the second is copied.
\<close>

theorem copy_failure_is_recorded_witness:
  "create_output_structure plain_fs ''HT A''
      \<lparr>dirs = [], files = [joinpath architect_path ''F1.pdf'',
                             joinpath architect_path ''F2.pdf''],
        unreadable = [joinpath architect_path ''F1.pdf'']\<rparr> =
     (Some (joinpath processed_path ''HT A''),
      \<lparr>dirs = [joinpath processed_path ''HT A''],
        files = [joinpath architect_path ''F1.pdf'', joinpath architect_path ''F2.pdf''],
        unreadable = [joinpath architect_path ''F1.pdf'']\<rparr>) \<and>
   fs_exists plain_fs
      \<lparr>dirs = [joinpath processed_path ''HT A''],
        files = [joinpath architect_path ''F1.pdf'', joinpath architect_path ''F2.pdf''],
        unreadable = [joinpath architect_path ''F1.pdf'']\<rparr>
      (joinpath architect_path (source_filename_with_ext ''F1.pdf'')) \<and>
   (case process_matches plain_fs
          [\<lparr>m_flat_ref = ''HT A'', m_title = ''Sections - HT A'', m_filename = ''F1.pdf'',
            m_row_index = 0\<rparr>,
           \<lparr>m_flat_ref = ''HT A'', m_title = ''Sections - HT A 2'', m_filename = ''F2.pdf'',
            m_row_index = 1\<rparr>]
          (init, \<lparr>dirs = [], files = [joinpath architect_path ''F1.pdf'',
                                          joinpath architect_path ''F2.pdf''],
                   unreadable = [joinpath architect_path ''F1.pdf'']\<rparr>) of
      (self, disk) \<Rightarrow>
        map ce_error (copy_errors_list (detailed_results self)) =
          [''[Errno 13] Permission denied''] \<and>
        map ce_filename (copy_errors_list (detailed_results self)) = [''F1.pdf''] \<and>
        copy_errors (stats self) = 1 \<and>
        map sm_new_filename (successful_matches (detailed_results self)) =
          [''sections_HTA_F2.pdf''])"
proof -
  let ?m1 = "\<lparr>m_flat_ref = ''HT A'', m_title = ''Sections - HT A'', m_filename = ''F1.pdf'',
            m_row_index = 0\<rparr>"
  let ?m2 = "\<lparr>m_flat_ref = ''HT A'', m_title = ''Sections - HT A 2'', m_filename = ''F2.pdf'',
            m_row_index = 1\<rparr>"
  let ?d = "\<lparr>dirs = [], files = [joinpath architect_path ''F1.pdf'',
                             joinpath architect_path ''F2.pdf''],
        unreadable = [joinpath architect_path ''F1.pdf'']\<rparr>"
  let ?d1 = "\<lparr>dirs = [joinpath processed_path ''HT A''],
        files = [joinpath architect_path ''F1.pdf'', joinpath architect_path ''F2.pdf''],
        unreadable = [joinpath architect_path ''F1.pdf'']\<rparr>"
  have h1: "create_output_structure plain_fs (m_flat_ref ?m1) ?d =
     (Some (joinpath processed_path ''HT A''), ?d1)"
    by code_simp
  have h2: "fs_exists plain_fs ?d1
      (joinpath architect_path (source_filename_with_ext (m_filename ?m1)))"
    by code_simp
  have h3: "fs_copy2 plain_fs ?d1
      (joinpath architect_path (source_filename_with_ext (m_filename ?m1)))
      (joinpath (joinpath processed_path ''HT A'')
         (generate_new_filename (source_filename_with_ext (m_filename ?m1))
            (m_flat_ref ?m1) ''sections'')) =
      (Some ''[Errno 13] Permission denied'', ?d1)"
    by code_simp
  note t = copy_failure_is_recorded[OF h1 h2 h3, where self = init and matches = "[?m2]"]
  from t have step: "process_matches plain_fs [?m1, ?m2] (init, ?d) =
       process_matches plain_fs [?m2]
         (init\<lparr>stats := (stats init)\<lparr>copy_errors := copy_errors (stats init) + 1\<rparr>,
            detailed_results := (detailed_results init)
              \<lparr>copy_errors_list :=
                 copy_errors_list (detailed_results init) @
                 [\<lparr>ce_flat_ref = m_flat_ref ?m1, ce_title = m_title ?m1,
                   ce_filename = m_filename ?m1,
                   ce_source_path =
                     joinpath architect_path (source_filename_with_ext (m_filename ?m1)),
                   ce_error = ''[Errno 13] Permission denied''\<rparr>]\<rparr>\<rparr>,
          ?d1)"
    by (elim conjE)
  have rest: "(case process_matches plain_fs [?m2]
         (init\<lparr>stats := (stats init)\<lparr>copy_errors := copy_errors (stats init) + 1\<rparr>,
            detailed_results := (detailed_results init)
              \<lparr>copy_errors_list :=
                 copy_errors_list (detailed_results init) @
                 [\<lparr>ce_flat_ref = m_flat_ref ?m1, ce_title = m_title ?m1,
                   ce_filename = m_filename ?m1,
                   ce_source_path =
                     joinpath architect_path (source_filename_with_ext (m_filename ?m1)),
                   ce_error = ''[Errno 13] Permission denied''\<rparr>]\<rparr>\<rparr>,
          ?d1) of
      (self, disk) \<Rightarrow>
        map ce_error (copy_errors_list (detailed_results self)) =
          [''[Errno 13] Permission denied''] \<and>
        map ce_filename (copy_errors_list (detailed_results self)) = [''F1.pdf''] \<and>
        copy_errors (stats self) = 1 \<and>
        map sm_new_filename (successful_matches (detailed_results self)) =
          [''sections_HTA_F2.pdf''])"
    by code_simp
  have c: "(case process_matches plain_fs [?m1, ?m2] (init, ?d) of
      (self, disk) \<Rightarrow>
        map ce_error (copy_errors_list (detailed_results self)) =
          [''[Errno 13] Permission denied''] \<and>
        map ce_filename (copy_errors_list (detailed_results self)) = [''F1.pdf''] \<and>
        copy_errors (stats self) = 1 \<and>
        map sm_new_filename (successful_matches (detailed_results self)) =
          [''sections_HTA_F2.pdf''])"
    unfolding step by (rule rest)
  have h1': "create_output_structure plain_fs ''HT A'' ?d =
     (Some (joinpath processed_path ''HT A''), ?d1)"
    using h1 by simp
  have h2': "fs_exists plain_fs ?d1 (joinpath architect_path (source_filename_with_ext ''F1.pdf''))"
    using h2 by simp
  show ?thesis
    by (intro conjI) (fact h1' h2' c)+
qed

text \<open>
  No outcome of a match stops the loop: the matches after it are processed from the state
  it leaves.
\<close>

lemma process_matches_append:
  "process_matches fsys (matches @ later) state =
     process_matches fsys later (process_matches fsys matches state)"
  by (induction matches arbitrary: state) simp_all

section \<open>Stages of the run\<close>

text \<open>
  Claim C5, as amended. A run whose input loading fails, and a run that extracts no
  reference key, return \<^verbatim>\<open>False\<close> at once: nothing is emitted, and the state and the disk
  are as they were. Every run where loading succeeds and at least one key is extracted
  returns \<^verbatim>\<open>True\<close>. When the matching stage returns at least one match, the run goes
  through every stage and emits the final statistics and then the report. When it returns
  none, the run stops there: it emits neither and leaves the disk untouched.
\<close>

theorem report_needs_a_match:
  "(loaded = None \<longrightarrow>
      process_files fsys eng loaded self disk =
        \<lparr>returned = False, final = self, disk_after = disk, emits = []\<rparr>) \<and>
   (loaded = Some (column_d, architect_df) \<and> get_flat_references column_d = [] \<longrightarrow>
      process_files fsys eng loaded self disk =
        \<lparr>returned = False, final = self, disk_after = disk, emits = []\<rparr>) \<and>
   (loaded = Some (column_d, architect_df) \<and> get_flat_references column_d \<noteq> [] \<longrightarrow>
      returned (process_files fsys eng loaded self disk) \<and>
      (fst (find_matching_sections eng architect_df (get_flat_references column_d) self)
         \<noteq> [] \<longrightarrow>
         emits (process_files fsys eng loaded self disk) =
           [Statistics (stats (final (process_files fsys eng loaded self disk))),
            DetailedReport
              (detailed_results (final (process_files fsys eng loaded self disk)))] \<and>
         (final (process_files fsys eng loaded self disk),
          disk_after (process_files fsys eng loaded self disk)) =
           process_matches fsys
             (fst (find_matching_sections eng architect_df
                     (get_flat_references column_d) self))
             (snd (find_matching_sections eng architect_df
                     (get_flat_references column_d) self), disk)) \<and>
      (fst (find_matching_sections eng architect_df (get_flat_references column_d) self)
         = [] \<longrightarrow>
         emits (process_files fsys eng loaded self disk) = [] \<and>
         disk_after (process_files fsys eng loaded self disk) = disk \<and>
         final (process_files fsys eng loaded self disk) =
           snd (find_matching_sections eng architect_df
                  (get_flat_references column_d) self)))"
proof (intro conjI impI)
  assume "loaded = None"
  then show "process_files fsys eng loaded self disk =
        \<lparr>returned = False, final = self, disk_after = disk, emits = []\<rparr>"
    by (simp add: process_files_def)
next
  assume "loaded = Some (column_d, architect_df) \<and> get_flat_references column_d = []"
  then show "process_files fsys eng loaded self disk =
        \<lparr>returned = False, final = self, disk_after = disk, emits = []\<rparr>"
    by (simp add: process_files_def)
next
  assume "loaded = Some (column_d, architect_df) \<and> get_flat_references column_d \<noteq> []"
  then show "returned (process_files fsys eng loaded self disk)"
    by (auto simp: process_files_def Let_def split: prod.splits)
next
  assume "loaded = Some (column_d, architect_df) \<and> get_flat_references column_d \<noteq> []"
    and "fst (find_matching_sections eng architect_df (get_flat_references column_d) self)
         \<noteq> []"
  then show "emits (process_files fsys eng loaded self disk) =
           [Statistics (stats (final (process_files fsys eng loaded self disk))),
            DetailedReport
              (detailed_results (final (process_files fsys eng loaded self disk)))]"
    by (auto simp: process_files_def Let_def split: prod.splits)
next
  assume "loaded = Some (column_d, architect_df) \<and> get_flat_references column_d \<noteq> []"
    and "fst (find_matching_sections eng architect_df (get_flat_references column_d) self)
         \<noteq> []"
  then show "(final (process_files fsys eng loaded self disk),
          disk_after (process_files fsys eng loaded self disk)) =
           process_matches fsys
             (fst (find_matching_sections eng architect_df
                     (get_flat_references column_d) self))
             (snd (find_matching_sections eng architect_df
                     (get_flat_references column_d) self), disk)"
    by (auto simp: process_files_def Let_def split: prod.splits)
next
  assume "loaded = Some (column_d, architect_df) \<and> get_flat_references column_d \<noteq> []"
    and "fst (find_matching_sections eng architect_df (get_flat_references column_d) self)
         = []"
  then show "emits (process_files fsys eng loaded self disk) = []"
    by (auto simp: process_files_def Let_def split: prod.splits)
next
  assume "loaded = Some (column_d, architect_df) \<and> get_flat_references column_d \<noteq> []"
    and "fst (find_matching_sections eng architect_df (get_flat_references column_d) self)
         = []"
  then show "disk_after (process_files fsys eng loaded self disk) = disk"
    by (auto simp: process_files_def Let_def split: prod.splits)
next
  assume "loaded = Some (column_d, architect_df) \<and> get_flat_references column_d \<noteq> []"
    and "fst (find_matching_sections eng architect_df (get_flat_references column_d) self)
         = []"
  then show "final (process_files fsys eng loaded self disk) =
           snd (find_matching_sections eng architect_df
                  (get_flat_references column_d) self)"
    by (auto simp: process_files_def Let_def split: prod.splits)
qed

text \<open>
  Four runs: loading fails; the only cell of column D is the header text; one key and one
  matching row whose file is missing; one key and no row.
\<close>

theorem report_needs_a_match_witness:
  "process_files plain_fs py_re None init empty_disk =
     \<lparr>returned = False, final = init, disk_after = empty_disk, emits = []\<rparr> \<and>
   get_flat_references [Some ''Flat / House Ref'', None] = [] \<and>
   process_files plain_fs py_re
      (Some ([Some ''Flat / House Ref'', None],
             [\<lparr>cat_filename = ''F1'', cat_title = ''Sections - HT A''\<rparr>]))
      init empty_disk =
     \<lparr>returned = False, final = init, disk_after = empty_disk, emits = []\<rparr> \<and>
   get_flat_references [Some ''HT A''] \<noteq> [] \<and>
   fst (find_matching_sections py_re
          [\<lparr>cat_filename = ''F1'', cat_title = ''Sections - HT A''\<rparr>]
          (get_flat_references [Some ''HT A'']) init) \<noteq> [] \<and>
   returned (process_files plain_fs py_re
      (Some ([Some ''HT A''], [\<lparr>cat_filename = ''F1'', cat_title = ''Sections - HT A''\<rparr>]))
      init empty_disk) \<and>
   map (\<lambda>e. case e of Statistics s \<Rightarrow> ''statistics'' | DetailedReport d \<Rightarrow> ''report'')
     (emits (process_files plain_fs py_re
        (Some ([Some ''HT A''], [\<lparr>cat_filename = ''F1'', cat_title = ''Sections - HT A''\<rparr>]))
        init empty_disk)) = [''statistics'', ''report''] \<and>
   fst (find_matching_sections py_re [] (get_flat_references [Some ''HT A'']) init) = [] \<and>
   returned (process_files plain_fs py_re (Some ([Some ''HT A''], [])) init empty_disk) \<and>
   emits (process_files plain_fs py_re (Some ([Some ''HT A''], [])) init empty_disk) = []"
proof -
  let ?cat = "[\<lparr>cat_filename = ''F1'', cat_title = ''Sections - HT A''\<rparr>]"
  let ?stop = "\<lparr>returned = False, final = init, disk_after = empty_disk, emits = []\<rparr>"
  have h0: "get_flat_references [Some ''Flat / House Ref'', None] = []"
    by code_simp
  have h1: "get_flat_references [Some ''HT A''] \<noteq> []"
    by code_simp
  have h2: "fst (find_matching_sections py_re ?cat (get_flat_references [Some ''HT A''])
                   init) \<noteq> []"
    by code_simp
  have h3: "fst (find_matching_sections py_re [] (get_flat_references [Some ''HT A''])
                   init) = []"
    by code_simp
  note n = report_needs_a_match[where loaded = None and fsys = plain_fs and eng = py_re
      and self = init and disk = empty_disk]
  note z = report_needs_a_match[where loaded = "Some ([Some ''Flat / House Ref'', None], ?cat)"
      and column_d = "[Some ''Flat / House Ref'', None]" and architect_df = ?cat
      and fsys = plain_fs and eng = py_re and self = init and disk = empty_disk]
  note a = report_needs_a_match[where loaded = "Some ([Some ''HT A''], ?cat)"
      and column_d = "[Some ''HT A'']" and architect_df = ?cat
      and fsys = plain_fs and eng = py_re and self = init and disk = empty_disk]
  note b = report_needs_a_match[where loaded = "Some ([Some ''HT A''], [])"
      and column_d = "[Some ''HT A'']" and architect_df = "[]"
      and fsys = plain_fs and eng = py_re and self = init and disk = empty_disk]
  have n1: "process_files plain_fs py_re None init empty_disk = ?stop"
    using n[THEN conjunct1] by simp
  have z1: "process_files plain_fs py_re
      (Some ([Some ''Flat / House Ref'', None], ?cat)) init empty_disk = ?stop"
    using z[THEN conjunct2, THEN conjunct1] h0 by simp
  note a' = a[THEN conjunct2, THEN conjunct2, THEN mp, OF conjI[OF refl h1]]
  have a1: "returned (process_files plain_fs py_re (Some ([Some ''HT A''], ?cat))
        init empty_disk)"
    using a'[THEN conjunct1] .
  have "emits (process_files plain_fs py_re (Some ([Some ''HT A''], ?cat)) init empty_disk) =
           [Statistics (stats (final (process_files plain_fs py_re
               (Some ([Some ''HT A''], ?cat)) init empty_disk))),
            DetailedReport (detailed_results (final (process_files plain_fs py_re
               (Some ([Some ''HT A''], ?cat)) init empty_disk)))]"
    using a'[THEN conjunct2, THEN conjunct1, THEN mp, OF h2, THEN conjunct1] .
  then have a2: "map (\<lambda>e. case e of Statistics s \<Rightarrow> ''statistics''
                              | DetailedReport d \<Rightarrow> ''report'')
     (emits (process_files plain_fs py_re (Some ([Some ''HT A''], ?cat)) init empty_disk)) =
     [''statistics'', ''report'']"
    by simp
  note b' = b[THEN conjunct2, THEN conjunct2, THEN mp, OF conjI[OF refl h1]]
  have b1: "returned (process_files plain_fs py_re (Some ([Some ''HT A''], []))
        init empty_disk)"
    using b'[THEN conjunct1] .
  have b2: "emits (process_files plain_fs py_re (Some ([Some ''HT A''], [])) init empty_disk)
        = []"
    using b'[THEN conjunct2, THEN conjunct2, THEN mp, OF h3, THEN conjunct1] .
  show ?thesis
    by (intro conjI) (fact n1 h0 z1 h1 h2 a1 a2 h3 b1 b2)+
qed

text \<open>
  The claim as stated fails when no key matches: loading succeeds, one key is extracted,
  the run returns \<^verbatim>\<open>True\<close> and emits neither the statistics nor the report.
\<close>

theorem no_match_no_report_counterexample:
  "get_flat_references [Some ''HT A 3B4P''] = [''HT A 3B4P''] \<and>
   returned (process_files plain_fs py_re
      (Some ([Some ''HT A 3B4P''],
             [\<lparr>cat_filename = ''F9.pdf'', cat_title = ''Elevations - HT A 3B4P''\<rparr>]))
      init empty_disk) \<and>
   emits (process_files plain_fs py_re
      (Some ([Some ''HT A 3B4P''],
             [\<lparr>cat_filename = ''F9.pdf'', cat_title = ''Elevations - HT A 3B4P''\<rparr>]))
      init empty_disk) = [] \<and>
   stats (final (process_files plain_fs py_re
      (Some ([Some ''HT A 3B4P''],
             [\<lparr>cat_filename = ''F9.pdf'', cat_title = ''Elevations - HT A 3B4P''\<rparr>]))
      init empty_disk)) =
     \<lparr>processed = 1, matched = 0, not_found = 1, copy_errors = 0\<rparr>"
  by code_simp

end
